theory Spec2Isabelle
  imports Main
begin

section \<open>JavaScript values\<close>

text \<open>
  The profile builder (\<^verbatim>\<open>profile-update.ts\<close>) and the profile validator
  (\<^verbatim>\<open>profile-validator.service.ts\<close>) work on untyped data: the content of a
  credential is whatever \<^verbatim>\<open>JSON.parse\<close> returned. The values are modelled by
  the datatype \<open>jsval\<close>. An object is the list of its own properties (keys distinct, as
  \<^verbatim>\<open>JSON.parse\<close> leaves them); inherited properties (the members of
  \<^verbatim>\<open>Object.prototype\<close> and of the wrapper prototypes) are not modelled, so a
  path segment is taken not to name one. Strings are ASCII.

  A number is \<open>NaN\<close>, an infinity, or the exact decimal \<open>Fin m e\<close>, which stands for
  \<open>m * 10 ^ e\<close>; the rounding of IEEE doubles is not modelled (neither the loss of
  digits beyond the precision of a double, nor the underflow to 0 or the overflow to an
  infinity of a literal outside its range), and \<open>-0\<close> is \<open>0\<close>.

  The configuration files that both classes read (\<^verbatim>\<open>vcArray.json\<close>, the files of
  \<^verbatim>\<open>vcPaths\<close> and of \<^verbatim>\<open>docToFieldMaps\<close>, \<^verbatim>\<open>config.json\<close>,
  \<^verbatim>\<open>fieldValues.json\<close>, \<^verbatim>\<open>nameFieldsPosition.json\<close>) are not among the
  sources; their parsed contents are parameters of the functions that read them. An
  exception is a result \<open>Inl e\<close>; \<^verbatim>\<open>await\<close> is sequential and leaves no trace in
  the model. A \<^verbatim>\<open>for\<close> loop is a recursive function over the list it runs through,
  named after what it scans.
\<close>

datatype jsnum = NaN | PosInf | NegInf | Fin int int

datatype jsval =
    JUndefined
  | JNull
  | JBool bool
  | JNum jsnum
  | JStr string
  | JArr "jsval list"
  | JObj "(string \<times> jsval) list"

text \<open>What the source can throw: a \<^verbatim>\<open>TypeError\<close> (a method called on a value
  that has none, a property read on \<^verbatim>\<open>undefined\<close>), and the failure of
  \<^verbatim>\<open>readFile\<close> or \<^verbatim>\<open>JSON.parse\<close> on a configuration file.\<close>

datatype error = TypeError | FileError

text \<open>A call returns when it does not throw.\<close>

definition returns :: "error + 'a \<Rightarrow> bool" where
  "returns r = (case r of Inr x \<Rightarrow> True | Inl e \<Rightarrow> False)"

subsection \<open>Numbers\<close>

definition numIsZero :: "jsnum \<Rightarrow> bool" where
  "numIsZero n = (case n of Fin m e \<Rightarrow> m = 0 | _ \<Rightarrow> False)"

definition numIsNaN :: "jsnum \<Rightarrow> bool" where
  "numIsNaN n = (case n of NaN \<Rightarrow> True | _ \<Rightarrow> False)"

definition numNegative :: "jsnum \<Rightarrow> bool" where
  "numNegative n = (case n of Fin m e \<Rightarrow> m < 0 | NegInf \<Rightarrow> True | _ \<Rightarrow> False)"

definition numNeg :: "jsnum \<Rightarrow> jsnum" where
  "numNeg n = (case n of Fin m e \<Rightarrow> Fin (- m) e | PosInf \<Rightarrow> NegInf | NegInf \<Rightarrow> PosInf | NaN \<Rightarrow> NaN)"

text \<open>Numeric equality (\<^verbatim>\<open>NaN\<close> equals nothing).\<close>

definition numEq :: "jsnum \<Rightarrow> jsnum \<Rightarrow> bool" where
  "numEq a b =
     (case (a, b) of
        (Fin m1 e1, Fin m2 e2) \<Rightarrow>
          m1 * 10 ^ nat (e1 - min e1 e2) = m2 * 10 ^ nat (e2 - min e1 e2)
      | (PosInf, PosInf) \<Rightarrow> True
      | (NegInf, NegInf) \<Rightarrow> True
      | _ \<Rightarrow> False)"

subsection \<open>Characters and digits\<close>

definition isDigit :: "char \<Rightarrow> bool" where
  "isDigit c = (c \<in> set ''0123456789'')"

definition digitTable :: "(char \<times> nat) list" where
  "digitTable =
     [(CHR ''0'', 0), (CHR ''1'', 1), (CHR ''2'', 2), (CHR ''3'', 3), (CHR ''4'', 4),
      (CHR ''5'', 5), (CHR ''6'', 6), (CHR ''7'', 7), (CHR ''8'', 8), (CHR ''9'', 9),
      (CHR ''a'', 10), (CHR ''b'', 11), (CHR ''c'', 12), (CHR ''d'', 13), (CHR ''e'', 14),
      (CHR ''f'', 15), (CHR ''A'', 10), (CHR ''B'', 11), (CHR ''C'', 12), (CHR ''D'', 13),
      (CHR ''E'', 14), (CHR ''F'', 15)]"

definition digitVal :: "char \<Rightarrow> nat" where
  "digitVal c = (case map_of digitTable c of Some d \<Rightarrow> d | None \<Rightarrow> 0)"

definition isDigitOf :: "nat \<Rightarrow> char \<Rightarrow> bool" where
  "isDigitOf base c = (case map_of digitTable c of Some d \<Rightarrow> d < base | None \<Rightarrow> False)"

definition digitsVal :: "nat \<Rightarrow> string \<Rightarrow> nat" where
  "digitsVal base ds = foldl (\<lambda>a c. a * base + digitVal c) 0 ds"

function showNat :: "nat \<Rightarrow> string" where
  "showNat n =
     (if n < 10 then [''0123456789'' ! n]
      else showNat (n div 10) @ [''0123456789'' ! (n mod 10)])"
  by pat_completeness auto
termination
  by (relation "measure id") auto

declare showNat.simps [simp del]

text \<open>White space and line terminators, as \<^verbatim>\<open>trim\<close> and the conversion of a
  string to a number strip them.\<close>

definition isWhite :: "char \<Rightarrow> bool" where
  "isWhite c = (c \<in> set [CHR '' '', CHR 0x09, CHR 0x0A, CHR 0x0B, CHR 0x0C, CHR 0x0D])"

definition trimJS :: "string \<Rightarrow> string" where
  "trimJS s = rev (dropWhile isWhite (rev (dropWhile isWhite s)))"

definition lowerChar :: "char \<Rightarrow> char" where
  "lowerChar c =
     (case map_of (zip ''ABCDEFGHIJKLMNOPQRSTUVWXYZ'' ''abcdefghijklmnopqrstuvwxyz'') c of
        Some l \<Rightarrow> l | None \<Rightarrow> c)"

definition toLowerCase :: "string \<Rightarrow> string" where
  "toLowerCase s = map lowerChar s"

text \<open>\<^verbatim>\<open>s.split(c)\<close> for a separator of one character: never empty, and two
  separators in a row give an empty piece.\<close>

fun splitOn :: "char \<Rightarrow> string \<Rightarrow> string list" where
  "splitOn c [] = [[]]"
| "splitOn c (x # xs) =
     (if x = c then [] # splitOn c xs
      else (case splitOn c xs of p # ps \<Rightarrow> (x # p) # ps | [] \<Rightarrow> [[x]]))"

fun joinWith :: "string \<Rightarrow> string list \<Rightarrow> string" where
  "joinWith sep [] = []"
| "joinWith sep [x] = x"
| "joinWith sep (x # y # ys) = x @ sep @ joinWith sep (y # ys)"

subsection \<open>Conversion of a number to a string\<close>

definition numToString :: "jsnum \<Rightarrow> string" where
  "numToString x =
     (case x of
        NaN \<Rightarrow> ''NaN''
      | PosInf \<Rightarrow> ''Infinity''
      | NegInf \<Rightarrow> ''-Infinity''
      | Fin m e \<Rightarrow>
          if m = 0 then ''0''
          else
            let ds0 = showNat (nat \<bar>m\<bar>);
                z = length (takeWhile (\<lambda>c. c = CHR ''0'') (rev ds0));
                ds = take (length ds0 - z) ds0;
                k = int (length ds);
                n = k + e + int z;
                body =
                  (if k \<le> n \<and> n \<le> 21 then ds @ replicate (nat (n - k)) (CHR ''0'')
                   else if 0 < n \<and> n \<le> 21 then take (nat n) ds @ ''.'' @ drop (nat n) ds
                   else if - 6 < n \<and> n \<le> 0 then ''0.'' @ replicate (nat (- n)) (CHR ''0'') @ ds
                   else
                     let ex = (if n - 1 < 0 then ''-'' else ''+'') @ showNat (nat \<bar>n - 1\<bar>)
                     in if k = 1 then ds @ ''e'' @ ex
                        else take 1 ds @ ''.'' @ drop 1 ds @ ''e'' @ ex)
            in (if m < 0 then ''-'' else []) @ body)"

subsection \<open>Conversion of a string to a number\<close>

text \<open>\<^verbatim>\<open>Number(s)\<close>: the string is trimmed; the empty string is 0; then a
  hexadecimal, octal or binary literal without sign, or a signed decimal literal with
  optional fraction and exponent, or a signed \<^verbatim>\<open>Infinity\<close>; anything else is
  \<^verbatim>\<open>NaN\<close>.\<close>

definition parseExponent :: "string \<Rightarrow> int option" where
  "parseExponent s =
     (let (neg, ds) =
            (case s of
               c # t \<Rightarrow> if c = CHR ''-'' then (True, t) else if c = CHR ''+'' then (False, t)
                        else (False, s)
             | [] \<Rightarrow> (False, s))
      in if ds \<noteq> [] \<and> list_all isDigit ds
         then Some (if neg then - int (digitsVal 10 ds) else int (digitsVal 10 ds))
         else None)"

definition parseDecimal :: "string \<Rightarrow> jsnum" where
  "parseDecimal s =
     (if s = ''Infinity'' then PosInf
      else
        let ip = takeWhile isDigit s;
            r1 = dropWhile isDigit s;
            (fp, r2) =
              (case r1 of
                 c # t \<Rightarrow> if c = CHR ''.'' then (takeWhile isDigit t, dropWhile isDigit t)
                          else ([], r1)
               | [] \<Rightarrow> ([], r1));
            ex =
              (case r2 of
                 [] \<Rightarrow> Some 0
               | c # t \<Rightarrow> if c = CHR ''e'' \<or> c = CHR ''E'' then parseExponent t else None)
        in if ip = [] \<and> fp = [] then NaN
           else (case ex of
                   None \<Rightarrow> NaN
                 | Some x \<Rightarrow> Fin (int (digitsVal 10 (ip @ fp))) (x - int (length fp))))"

definition parseRadix :: "nat \<Rightarrow> string \<Rightarrow> jsnum" where
  "parseRadix base ds =
     (if ds \<noteq> [] \<and> list_all (isDigitOf base) ds then Fin (int (digitsVal base ds)) 0
      else NaN)"

definition jsNumber :: "string \<Rightarrow> jsnum" where
  "jsNumber s =
     (let t = trimJS s in
      if t = [] then Fin 0 0
      else if take 2 t = ''0x'' \<or> take 2 t = ''0X'' then parseRadix 16 (drop 2 t)
      else if take 2 t = ''0o'' \<or> take 2 t = ''0O'' then parseRadix 8 (drop 2 t)
      else if take 2 t = ''0b'' \<or> take 2 t = ''0B'' then parseRadix 2 (drop 2 t)
      else (case t of
              c # r \<Rightarrow>
                if c = CHR ''+'' then parseDecimal r
                else if c = CHR ''-'' then numNeg (parseDecimal r)
                else parseDecimal t
            | [] \<Rightarrow> Fin 0 0))"

subsection \<open>Truthiness, conversion to a string, property access, equality\<close>

fun truthy :: "jsval \<Rightarrow> bool" where
  "truthy JUndefined = False"
| "truthy JNull = False"
| "truthy (JBool b) = b"
| "truthy (JNum n) = (\<not> numIsNaN n \<and> \<not> numIsZero n)"
| "truthy (JStr s) = (s \<noteq> [])"
| "truthy (JArr xs) = True"
| "truthy (JObj kvs) = True"

text \<open>\<^verbatim>\<open>String(v)\<close>; an array joins its elements with commas, where
  \<^verbatim>\<open>null\<close> and \<^verbatim>\<open>undefined\<close> count as empty.\<close>

fun toStr :: "jsval \<Rightarrow> string"
and elemStr :: "jsval \<Rightarrow> string" where
  "toStr JUndefined = ''undefined''"
| "toStr JNull = ''null''"
| "toStr (JBool b) = (if b then ''true'' else ''false'')"
| "toStr (JNum n) = numToString n"
| "toStr (JStr s) = s"
| "toStr (JArr xs) = joinWith '','' (map elemStr xs)"
| "toStr (JObj kvs) = ''[object Object]''"
| "elemStr JUndefined = []"
| "elemStr JNull = []"
| "elemStr (JBool b) = toStr (JBool b)"
| "elemStr (JNum n) = toStr (JNum n)"
| "elemStr (JStr s) = toStr (JStr s)"
| "elemStr (JArr xs) = toStr (JArr xs)"
| "elemStr (JObj kvs) = toStr (JObj kvs)"

text \<open>An array index is a canonical numeric string: digits without a leading zero.\<close>

definition parseIndex :: "string \<Rightarrow> nat option" where
  "parseIndex s =
     (if s \<noteq> [] \<and> list_all isDigit s \<and> (length s = 1 \<or> hd s \<noteq> CHR ''0'')
      then Some (digitsVal 10 s) else None)"

text \<open>\<^verbatim>\<open>v[key]\<close> on a value that is neither \<^verbatim>\<open>undefined\<close> nor
  \<^verbatim>\<open>null\<close> (both call sites test the value first).\<close>

fun getProp :: "jsval \<Rightarrow> string \<Rightarrow> jsval" where
  "getProp (JObj kvs) key = (case map_of kvs key of Some v \<Rightarrow> v | None \<Rightarrow> JUndefined)"
| "getProp (JArr xs) key =
     (if key = ''length'' then JNum (Fin (int (length xs)) 0)
      else (case parseIndex key of
              Some i \<Rightarrow> if i < length xs then xs ! i else JUndefined
            | None \<Rightarrow> JUndefined))"
| "getProp (JStr s) key =
     (if key = ''length'' then JNum (Fin (int (length s)) 0)
      else (case parseIndex key of
              Some i \<Rightarrow> if i < length s then JStr [s ! i] else JUndefined
            | None \<Rightarrow> JUndefined))"
| "getProp v key = JUndefined"

text \<open>Strict equality \<^verbatim>\<open>===\<close> against a string.\<close>

definition strictEqStr :: "jsval \<Rightarrow> string \<Rightarrow> bool" where
  "strictEqStr v s = (v = JStr s)"

text \<open>Loose equality \<^verbatim>\<open>==\<close>. The two operands here are never the same object
  (one is read from a credential, the other from the stored profile), so two objects are
  unequal; an object against a primitive is converted to its string.\<close>

definition isObject :: "jsval \<Rightarrow> bool" where
  "isObject v = (case v of JArr xs \<Rightarrow> True | JObj kvs \<Rightarrow> True | _ \<Rightarrow> False)"

definition isNullish :: "jsval \<Rightarrow> bool" where
  "isNullish v = (v = JUndefined \<or> v = JNull)"

definition toPrimitive :: "jsval \<Rightarrow> jsval" where
  "toPrimitive v = (if isObject v then JStr (toStr v) else v)"

definition toNumberPrim :: "jsval \<Rightarrow> jsnum" where
  "toNumberPrim v =
     (case v of
        JBool b \<Rightarrow> (if b then Fin 1 0 else Fin 0 0)
      | JNum n \<Rightarrow> n
      | JStr s \<Rightarrow> jsNumber s
      | _ \<Rightarrow> NaN)"

definition looseEq :: "jsval \<Rightarrow> jsval \<Rightarrow> bool" where
  "looseEq x y =
     (if isObject x \<and> isObject y then False
      else if isNullish x \<or> isNullish y then isNullish x \<and> isNullish y
      else
        (case (toPrimitive x, toPrimitive y) of
           (JStr a, JStr b) \<Rightarrow> a = b
         | (p, q) \<Rightarrow> numEq (toNumberPrim p) (toNumberPrim q)))"

section \<open>The profile builder\<close>

text \<open>A credential record. The builder's \<^verbatim>\<open>buildVCs\<close> sets only
  \<^verbatim>\<open>docType\<close> and \<^verbatim>\<open>content\<close>; the validator also reads
  \<^verbatim>\<open>vcType\<close> and \<^verbatim>\<open>docFormat\<close> (\<open>None\<close> is a missing property).\<close>

record vc =
  docType :: string
  vcType :: "string option"
  docFormat :: "string option"
  content :: jsval

text \<open>A configuration file as \<^verbatim>\<open>JSON.parse(await readFile(...))\<close> gives it:
  the read or the parse fails, or the file holds a falsy value, or it holds an object.\<close>

datatype 'a jsonFile = Unreadable | ParsedFalsy | Parsed 'a

subsection \<open>Dates\<close>

record date =
  year :: int
  month :: nat
  day :: nat

text \<open>The host: \<^verbatim>\<open>new Date(v)\<close> followed by \<^verbatim>\<open>isValid\<close>, read as the
  local calendar date (\<open>None\<close> for an invalid date). Outside the ISO format the result of
  the native parse is left to the JavaScript engine, so it is a parameter. The second field
  says what the date library does with an input that is not a string: version 2 of
  \<^verbatim>\<open>date-fns\<close> converts it with \<^verbatim>\<open>String\<close>, later versions call its
  \<^verbatim>\<open>match\<close> method.\<close>

record host =
  nativeDate :: "jsval \<Rightarrow> date option"
  parseCoerces :: bool

definition padZeros :: "nat \<Rightarrow> string \<Rightarrow> string" where
  "padZeros n s = replicate (n - length s) (CHR ''0'') @ s"

text \<open>\<^verbatim>\<open>format(d, 'yyyy-MM-dd')\<close>.\<close>

definition formatDate :: "date \<Rightarrow> string" where
  "formatDate d =
     padZeros 4 (showNat (nat (if year d > 0 then year d else 1 - year d))) @ ''-'' @
     padZeros 2 (showNat (month d)) @ ''-'' @ padZeros 2 (showNat (day d))"

text \<open>\<^verbatim>\<open>parse(s, fmt, new Date())\<close> of \<^verbatim>\<open>date-fns\<close>, for formats made
  of the tokens \<^verbatim>\<open>yyyy\<close>, \<^verbatim>\<open>MM\<close>, \<^verbatim>\<open>dd\<close> and literal characters:
  a numeric token of length \<open>n\<close> takes between one and \<open>n\<close> digits, a literal must be
  next in the input, what is left after the last token must be white space, and then the
  year must be positive, the month between 1 and 12 and the day within the month.\<close>

datatype dateField = FYear | FMonth | FDay

datatype fmtToken = TNum dateField nat | TLit char

definition parseNDigits :: "nat \<Rightarrow> string \<Rightarrow> (nat \<times> string) option" where
  "parseNDigits n s =
     (let ds = take n (takeWhile isDigit s)
      in if ds = [] then None else Some (digitsVal 10 ds, drop (length ds) s))"

fun matchTokens :: "fmtToken list \<Rightarrow> string \<Rightarrow> ((dateField \<times> nat) list \<times> string) option" where
  "matchTokens [] s = Some ([], s)"
| "matchTokens (TLit c # ts) s =
     (case s of
        [] \<Rightarrow> None
      | x # r \<Rightarrow> if x = c then matchTokens ts r else None)"
| "matchTokens (TNum f n # ts) s =
     (case parseNDigits n s of
        None \<Rightarrow> None
      | Some (v, r) \<Rightarrow>
          (case matchTokens ts r of
             None \<Rightarrow> None
           | Some (vs, r') \<Rightarrow> Some ((f, v) # vs, r')))"

definition isLeapYear :: "nat \<Rightarrow> bool" where
  "isLeapYear y = (y mod 400 = 0 \<or> (y mod 4 = 0 \<and> y mod 100 \<noteq> 0))"

definition daysInMonth :: "nat \<Rightarrow> nat \<Rightarrow> nat" where
  "daysInMonth y m =
     (if m = 2 then (if isLeapYear y then 29 else 28)
      else if m \<in> set [4, 6, 9, 11] then 30 else 31)"

definition dfParse :: "string \<Rightarrow> fmtToken list \<Rightarrow> date option" where
  "dfParse s fmt =
     (case matchTokens fmt s of
        None \<Rightarrow> None
      | Some (vs, rest) \<Rightarrow>
          if \<not> list_all isWhite rest then None
          else
            (case (map_of vs FYear, map_of vs FMonth, map_of vs FDay) of
               (Some y, Some m, Some d) \<Rightarrow>
                 if 0 < y \<and> 1 \<le> m \<and> m \<le> 12 \<and> 1 \<le> d \<and> d \<le> daysInMonth y m
                 then Some \<lparr>year = int y, month = m, day = d\<rparr>
                 else None
             | _ \<Rightarrow> None))"

definition possibleFormats :: "fmtToken list list" where
  "possibleFormats =
     [[TNum FYear 4, TLit (CHR ''-''), TNum FMonth 2, TLit (CHR ''-''), TNum FDay 2],
      [TNum FDay 2, TLit (CHR ''-''), TNum FMonth 2, TLit (CHR ''-''), TNum FYear 4],
      [TNum FMonth 2, TLit (CHR ''-''), TNum FDay 2, TLit (CHR ''-''), TNum FYear 4],
      [TNum FYear 4, TLit (CHR ''/''), TNum FMonth 2, TLit (CHR ''/''), TNum FDay 2],
      [TNum FDay 2, TLit (CHR ''/''), TNum FMonth 2, TLit (CHR ''/''), TNum FYear 4],
      [TNum FMonth 2, TLit (CHR ''/''), TNum FDay 2, TLit (CHR ''/''), TNum FYear 4]]"

text \<open>The loop over \<^verbatim>\<open>possibleFormats\<close> of \<^verbatim>\<open>formatDateToISO\<close>.\<close>

fun tryFormats :: "string \<Rightarrow> fmtToken list list \<Rightarrow> jsval" where
  "tryFormats s [] = JNull"
| "tryFormats s (dateFormat # fmts) =
     (case dfParse s dateFormat of
        Some parsedDate \<Rightarrow> JStr (formatDate parsedDate)
      | None \<Rightarrow> tryFormats s fmts)"

definition formatDateToISO :: "host \<Rightarrow> jsval \<Rightarrow> error + jsval" where
  "formatDateToISO h inputDate =
     (case nativeDate h inputDate of
        Some nativeParsedDate \<Rightarrow> Inr (JStr (formatDate nativeParsedDate))
      | None \<Rightarrow>
          (case inputDate of
             JStr s \<Rightarrow> Inr (tryFormats s possibleFormats)
           | _ \<Rightarrow>
               if parseCoerces h then Inr (tryFormats (toStr inputDate) possibleFormats)
               else Inl TypeError))"

subsection \<open>Roman numerals\<close>

definition romanMap :: "string \<Rightarrow> int option" where
  "romanMap =
     map_of [(''I'', 1), (''V'', 5), (''X'', 10), (''L'', 50), (''C'', 100), (''D'', 500),
             (''M'', 1000)]"

text \<open>The keys \<^verbatim>\<open>roman[0]\<close>, ..., \<^verbatim>\<open>roman[roman.length - 1]\<close>: the
  characters of a string, the elements of an array as property keys. A number or a boolean
  has no \<^verbatim>\<open>length\<close> and the loop body never runs; an object is taken to have no
  own property \<^verbatim>\<open>length\<close> (the loop would read the indices of one that has).\<close>

fun romanKeys :: "jsval \<Rightarrow> string list" where
  "romanKeys (JStr s) = map (\<lambda>c. [c]) s"
| "romanKeys (JArr xs) = map toStr xs"
| "romanKeys v = []"

text \<open>The loop of \<^verbatim>\<open>romanToInt\<close>; the total is \<open>None\<close> once it is
  \<^verbatim>\<open>NaN\<close> (a symbol outside the table was added to it).\<close>

fun romanLoop :: "int option \<Rightarrow> string list \<Rightarrow> int option" where
  "romanLoop tot [] = tot"
| "romanLoop tot (k # ks) =
     (let current = romanMap k;
          next = (case ks of
                    [] \<Rightarrow> 0
                  | k' # r \<Rightarrow> (case romanMap k' of Some n \<Rightarrow> n | None \<Rightarrow> 0))
      in case (tot, current) of
           (Some t, Some c) \<Rightarrow>
             if c < next then romanLoop (Some (t - c)) ks else romanLoop (Some (t + c)) ks
         | _ \<Rightarrow> romanLoop None ks)"

definition romanToInt :: "jsval \<Rightarrow> jsnum" where
  "romanToInt roman =
     (case romanLoop (Some 0) (romanKeys roman) of Some tot \<Rightarrow> Fin tot 0 | None \<Rightarrow> NaN)"

subsection \<open>Reading a value and the field handlers\<close>

text \<open>\<^verbatim>\<open>getValue\<close>: the path is \<open>None\<close> when the path file has no entry for
  the field.\<close>

definition getValue :: "vc \<Rightarrow> string option \<Rightarrow> jsval" where
  "getValue v pathValue =
     (case pathValue of
        None \<Rightarrow> JNull
      | Some p \<Rightarrow>
          if p = [] then JNull
          else foldl (\<lambda>acc part.
                        if truthy acc \<and> getProp acc part \<noteq> JUndefined then getProp acc part
                        else JNull)
                 (content v) (splitOn (CHR ''.'') p))"

definition handleNameFields :: "vc \<Rightarrow> (string \<rightharpoonup> string) \<Rightarrow> string \<Rightarrow> error + jsval" where
  "handleNameFields v vcPaths field =
     (let fullname = getValue v (vcPaths ''name'') in
      if \<not> truthy fullname then Inr JNull
      else
        (case fullname of
           JStr s \<Rightarrow>
             (let nameParts = splitOn (CHR '' '') s;
                  firstName = JStr (hd nameParts);
                  middleName = (if length nameParts = 3 then JStr (nameParts ! 1) else JNull);
                  lastName = (if length nameParts \<ge> 2 then JStr (last nameParts) else JNull)
              in if field = ''firstName'' then Inr firstName
                 else if field = ''middleName'' then Inr middleName
                 else if field = ''lastName'' then Inr lastName
                 else if field = ''fatherName'' then Inr middleName
                 else Inr JNull)
         | _ \<Rightarrow> Inl TypeError))"

definition handleClassField :: "vc \<Rightarrow> string option \<Rightarrow> jsval" where
  "handleClassField v pathValue =
     (let value = getValue v pathValue in
      if \<not> truthy value then JNull
      else
        let intValue = romanToInt value in
        if \<not> truthy (JNum intValue) then value else JNum intValue)"

definition isSlugChar :: "char \<Rightarrow> bool" where
  "isSlugChar c = (c \<in> set ''abcdefghijklmnopqrstuvwxyz0123456789'')"

text \<open>\<^verbatim>\<open>replace(/[^a-z0-9]+/g, '_')\<close>.\<close>

function replaceRuns :: "string \<Rightarrow> string" where
  "replaceRuns [] = []"
| "replaceRuns (c # cs) =
     (if isSlugChar c then c # replaceRuns cs
      else CHR ''_'' # replaceRuns (dropWhile (\<lambda>x. \<not> isSlugChar x) cs))"
  by pat_completeness auto
termination
  by (relation "measure length") (auto simp: length_dropWhile_le less_Suc_eq_le)

definition handleDisabilityTypeField :: "vc \<Rightarrow> string option \<Rightarrow> error + jsval" where
  "handleDisabilityTypeField v pathValue =
     (let value = getValue v pathValue in
      if \<not> truthy value then Inr JNull
      else
        (case value of
           JStr s \<Rightarrow> Inr (JStr (replaceRuns (toLowerCase (trimJS s))))
         | _ \<Rightarrow> Inl TypeError))"

definition handleDobValue :: "host \<Rightarrow> vc \<Rightarrow> string option \<Rightarrow> error + jsval" where
  "handleDobValue h v pathValue =
     (let value = getValue v pathValue in
      if \<not> truthy value then Inr JNull else formatDateToISO h value)"

text \<open>\<^verbatim>\<open>value.replace(/[, ']/g, '')\<close>.\<close>

definition sanitizeIncome :: "string \<Rightarrow> string" where
  "sanitizeIncome s = filter (\<lambda>c. c \<notin> set [CHR '','', CHR '' '', CHR 0x27]) s"

definition handleIncomeValue :: "vc \<Rightarrow> string option \<Rightarrow> error + jsval" where
  "handleIncomeValue v pathValue =
     (let value = getValue v pathValue in
      case value of
        JNull \<Rightarrow> Inr JNull
      | JNum n \<Rightarrow> if numIsNaN n \<or> numNegative n then Inr JNull else Inr value
      | JStr s \<Rightarrow> Inr (JNum (jsNumber (sanitizeIncome s)))
      | _ \<Rightarrow> Inl TypeError)"

text \<open>\<^verbatim>\<open>getFieldValueFromVC\<close>; \<open>vcPathsFile\<close> gives the file
  \<^verbatim>\<open>vcPaths/<docType>.json\<close>. The calls of \<^verbatim>\<open>handleNameFields\<close> and of the
  gender handler are commented out in the source.\<close>

definition getFieldValueFromVC ::
  "host \<Rightarrow> (string \<Rightarrow> (string \<rightharpoonup> string) jsonFile) \<Rightarrow> vc \<Rightarrow> string \<Rightarrow> error + jsval" where
  "getFieldValueFromVC h vcPathsFile v field =
     (case vcPathsFile (docType v) of
        Unreadable \<Rightarrow> Inl FileError
      | ParsedFalsy \<Rightarrow> Inr JNull
      | Parsed vcPaths \<Rightarrow>
          if field = ''disabilityType'' then handleDisabilityTypeField v (vcPaths field)
          else if field = ''class'' then Inr (handleClassField v (vcPaths field))
          else if field = ''dob'' then handleDobValue h v (vcPaths field)
          else if field = ''annualIncome'' then handleIncomeValue v (vcPaths field)
          else Inr (getValue v (vcPaths field)))"

subsection \<open>Building the profile\<close>

text \<open>The inner loop of \<^verbatim>\<open>buildProfile\<close> over the candidate document types of one
  field; \<open>value\<close> is the loop's variable, \<^verbatim>\<open>null\<close> at the start, and the result is
  its last value with \<^verbatim>\<open>docsUsed\<close>.\<close>

fun scanCandidates ::
  "host \<Rightarrow> (string \<Rightarrow> (string \<rightharpoonup> string) jsonFile) \<Rightarrow> vc list \<Rightarrow> string \<Rightarrow> jsval \<Rightarrow>
   string list \<Rightarrow> error + (jsval \<times> string list)" where
  "scanCandidates h vcPathsFile vcs field value [] = Inr (value, [])"
| "scanCandidates h vcPathsFile vcs field value (dt # vcArray) =
     (case find (\<lambda>v. docType v = dt) vcs of
        None \<Rightarrow> scanCandidates h vcPathsFile vcs field value vcArray
      | Some v \<Rightarrow>
          (case getFieldValueFromVC h vcPathsFile v field of
             Inl e \<Rightarrow> Inl e
           | Inr value' \<Rightarrow>
               if truthy value' then Inr (value', [docType v])
               else scanCandidates h vcPathsFile vcs field value' vcArray))"

record profileResult =
  userProfile :: "string \<rightharpoonup> jsval"
  validationData :: "string \<rightharpoonup> string list"

text \<open>The outer loop over the fields of \<^verbatim>\<open>vcArray.json\<close>, in the order of its
  keys.\<close>

fun buildFields ::
  "host \<Rightarrow> (string \<Rightarrow> (string \<rightharpoonup> string) jsonFile) \<Rightarrow> vc list \<Rightarrow> (string \<times> string list) list \<Rightarrow>
   profileResult \<Rightarrow> error + profileResult" where
  "buildFields h vcPathsFile vcs [] acc = Inr acc"
| "buildFields h vcPathsFile vcs ((field, vcArray) # profileFields) acc =
     (case scanCandidates h vcPathsFile vcs field JNull vcArray of
        Inl e \<Rightarrow> Inl e
      | Inr (value, docsUsed) \<Rightarrow>
          buildFields h vcPathsFile vcs profileFields
            (acc\<lparr>userProfile := (userProfile acc)(field \<mapsto> value),
                 validationData := (validationData acc)(field \<mapsto> docsUsed)\<rparr>))"

definition buildProfile ::
  "host \<Rightarrow> (string \<times> string list) list \<Rightarrow> (string \<Rightarrow> (string \<rightharpoonup> string) jsonFile) \<Rightarrow> vc list \<Rightarrow>
   error + profileResult" where
  "buildProfile h profileFields vcPathsFile vcs =
     buildFields h vcPathsFile vcs profileFields
       \<lparr>userProfile = Map.empty, validationData = Map.empty\<rparr>"

subsection \<open>Describing a scan\<close>

text \<open>A candidate document type yields nothing for a field when no credential of that
  type is supplied, or when the first such credential gives a falsy value without
  throwing.\<close>

definition yieldsNothing ::
  "host \<Rightarrow> (string \<Rightarrow> (string \<rightharpoonup> string) jsonFile) \<Rightarrow> vc list \<Rightarrow> string \<Rightarrow> string \<Rightarrow> bool" where
  "yieldsNothing h vcPathsFile vcs field dt =
     (case find (\<lambda>v. docType v = dt) vcs of
        None \<Rightarrow> True
      | Some v \<Rightarrow>
          (case getFieldValueFromVC h vcPathsFile v field of
             Inr x \<Rightarrow> \<not> truthy x
           | Inl e \<Rightarrow> False))"

text \<open>The values the consulted candidates returned, in the order of the candidates.\<close>

definition consultedValues ::
  "host \<Rightarrow> (string \<Rightarrow> (string \<rightharpoonup> string) jsonFile) \<Rightarrow> vc list \<Rightarrow> string \<Rightarrow> string list \<Rightarrow>
   jsval list" where
  "consultedValues h vcPathsFile vcs field vcArray =
     List.map_filter
       (\<lambda>dt. case find (\<lambda>v. docType v = dt) vcs of
               None \<Rightarrow> None
             | Some v \<Rightarrow>
                 (case getFieldValueFromVC h vcPathsFile v field of
                    Inr x \<Rightarrow> Some x
                  | Inl e \<Rightarrow> None))
       vcArray"

section \<open>The profile validator\<close>

text \<open>One entry of a file \<^verbatim>\<open>docToFieldMaps/<docType>.json\<close>: the path of
  each attribute for one combination of \<^verbatim>\<open>vcType\<close> and \<^verbatim>\<open>format\<close>.\<close>

record docVariant =
  variantVcType :: string
  variantFormat :: string
  variantFields :: "string \<rightharpoonup> string"

text \<open>The configuration files of the validator: \<^verbatim>\<open>config.json\<close> (attribute to
  document types), the files of \<^verbatim>\<open>docToFieldMaps\<close> (\<open>None\<close>: the file cannot be
  read), \<^verbatim>\<open>fieldValues.json\<close> and \<^verbatim>\<open>nameFieldsPosition.json\<close>.\<close>

record validatorConfig =
  config :: "string \<rightharpoonup> string list"
  docToFieldMaps :: "string \<rightharpoonup> docVariant list"
  fieldValues :: "string \<rightharpoonup> (string \<rightharpoonup> string list)"
  nameFieldsPosition :: "string \<rightharpoonup> (string \<rightharpoonup> nat)"

subsection \<open>Dates by regular expression\<close>

datatype rxItem = RDigit | RChar char

fun rxPrefix :: "rxItem list \<Rightarrow> string \<Rightarrow> bool" where
  "rxPrefix [] s = True"
| "rxPrefix (RDigit # ps) s = (case s of [] \<Rightarrow> False | c # cs \<Rightarrow> isDigit c \<and> rxPrefix ps cs)"
| "rxPrefix (RChar x # ps) s = (case s of [] \<Rightarrow> False | c # cs \<Rightarrow> c = x \<and> rxPrefix ps cs)"

text \<open>\<^verbatim>\<open>dateStr.match(regex)[0]\<close> for a pattern of fixed length without anchors:
  the leftmost occurrence.\<close>

fun rxSearch :: "rxItem list \<Rightarrow> string \<Rightarrow> string option" where
  "rxSearch p [] = (if rxPrefix p [] then Some [] else None)"
| "rxSearch p (c # cs) =
     (if rxPrefix p (c # cs) then Some (take (length p) (c # cs)) else rxSearch p cs)"

definition dayFirstRegex :: "char \<Rightarrow> rxItem list" where
  "dayFirstRegex sep =
     [RDigit, RDigit, RChar sep, RDigit, RDigit, RChar sep, RDigit, RDigit, RDigit, RDigit]"

definition yearFirstRegex :: "char \<Rightarrow> rxItem list" where
  "yearFirstRegex sep =
     [RDigit, RDigit, RDigit, RDigit, RChar sep, RDigit, RDigit, RChar sep, RDigit, RDigit]"

text \<open>The table \<^verbatim>\<open>formats\<close>; the flag is true for \<^verbatim>\<open>DD-MM-YYYY\<close> and
  \<^verbatim>\<open>DD/MM/YYYY\<close>, whose match is rearranged.\<close>

definition formats :: "(rxItem list \<times> bool) list" where
  "formats =
     [(dayFirstRegex (CHR ''-''), True), (yearFirstRegex (CHR ''-''), False),
      (dayFirstRegex (CHR ''/''), True), (yearFirstRegex (CHR ''/''), False)]"

fun parseFormats :: "string \<Rightarrow> (rxItem list \<times> bool) list \<Rightarrow> jsval" where
  "parseFormats dateStr [] = JNull"
| "parseFormats dateStr ((regex, dayFirst) # fs) =
     (case rxSearch regex dateStr of
        Some m \<Rightarrow>
          if dayFirst then JStr (drop 6 m @ ''-'' @ take 2 (drop 3 m) @ ''-'' @ take 2 m)
          else JStr m
      | None \<Rightarrow> parseFormats dateStr fs)"

definition parseToStandardFormat :: "jsval \<Rightarrow> error + jsval" where
  "parseToStandardFormat dateStr =
     (case dateStr of JStr s \<Rightarrow> Inr (parseFormats s formats) | _ \<Rightarrow> Inl TypeError)"

subsection \<open>Matching one attribute\<close>

definition getAttributeValue :: "vc \<Rightarrow> string option \<Rightarrow> error + jsval" where
  "getAttributeValue v pathValue =
     (if docFormat v = Some ''json'' then
        (case pathValue of
           None \<Rightarrow> Inl TypeError
         | Some p \<Rightarrow>
             Inr (foldl (\<lambda>acc part. if truthy acc then getProp acc part else acc)
                    (content v) (splitOn (CHR ''.'') p)))
      else Inr JUndefined)"

definition nameAttributes :: "string list" where
  "nameAttributes = [''firstName'', ''middleName'', ''lastName'']"

text \<open>\<^verbatim>\<open>userProfile[profileAttribute]\<close>.\<close>

definition profileValue :: "(string \<times> jsval) list \<Rightarrow> string \<Rightarrow> jsval" where
  "profileValue userProfileInfo profileAttribute =
     (case map_of userProfileInfo profileAttribute of Some x \<Rightarrow> x | None \<Rightarrow> JUndefined)"

text \<open>The branch of \<^verbatim>\<open>matchAttributeValue\<close> for the name attributes of a
  \<^verbatim>\<open>digilocker\<close> credential: the full name is split and the configured position
  taken.\<close>

definition pickNamePart :: "validatorConfig \<Rightarrow> vc \<Rightarrow> string \<Rightarrow> jsval \<Rightarrow> error + jsval" where
  "pickNamePart cfg v profileAttribute attributeValue =
     (case attributeValue of
        JStr a \<Rightarrow>
          (case nameFieldsPosition cfg (docType v) of
             None \<Rightarrow> Inl TypeError
           | Some positions \<Rightarrow>
               (case positions profileAttribute of
                  None \<Rightarrow> Inr JUndefined
                | Some i \<Rightarrow>
                    let nameValues = splitOn (CHR '' '') a
                    in Inr (if i < length nameValues then JStr (nameValues ! i) else JUndefined)))
      | _ \<Rightarrow> Inl TypeError)"

text \<open>The body of \<^verbatim>\<open>if (vc) { ... }\<close> in \<^verbatim>\<open>matchAttributeValue\<close>: every
  path through it returns or throws.\<close>

definition matchInVC ::
  "validatorConfig \<Rightarrow> docVariant \<Rightarrow> vc \<Rightarrow> string \<Rightarrow> (string \<times> jsval) list \<Rightarrow> error + bool" where
  "matchInVC cfg obj v profileAttribute userProfileInfo =
     (let digiName = (profileAttribute \<in> set nameAttributes \<and> vcType v = Some ''digilocker'');
          pathValue = (if digiName then variantFields obj ''name'' else variantFields obj profileAttribute)
      in case getAttributeValue v pathValue of
           Inl e \<Rightarrow> Inl e
         | Inr attributeValue \<Rightarrow>
             (case fieldValues cfg profileAttribute of
                Some values \<Rightarrow>
                  (case profileValue userProfileInfo profileAttribute of
                     JStr p \<Rightarrow>
                       (case values (toLowerCase p) of
                          None \<Rightarrow> Inl TypeError
                        | Some synonyms \<Rightarrow>
                            (case attributeValue of
                               JStr a \<Rightarrow> Inr (toLowerCase a \<in> set synonyms)
                             | _ \<Rightarrow> Inl TypeError))
                   | _ \<Rightarrow> Inl TypeError)
              | None \<Rightarrow>
                  (case (if digiName then pickNamePart cfg v profileAttribute attributeValue
                         else Inr attributeValue) of
                     Inl e \<Rightarrow> Inl e
                   | Inr attributeValue' \<Rightarrow>
                       if profileAttribute = ''dob'' then
                         (case parseToStandardFormat attributeValue' of
                            Inl e \<Rightarrow> Inl e
                          | Inr standardDate \<Rightarrow>
                              if truthy standardDate
                              then Inr (profileValue userProfileInfo profileAttribute = standardDate)
                              else Inr False)
                       else Inr (looseEq attributeValue'
                                   (profileValue userProfileInfo profileAttribute)))))"

text \<open>The loop of \<^verbatim>\<open>matchAttributeValue\<close> over the entries of the document type's
  file.\<close>

fun matchVariants ::
  "validatorConfig \<Rightarrow> string \<Rightarrow> string \<Rightarrow> vc list \<Rightarrow> (string \<times> jsval) list \<Rightarrow> docVariant list \<Rightarrow>
   error + bool" where
  "matchVariants cfg fileName profileAttribute vcs userProfileInfo [] = Inr False"
| "matchVariants cfg fileName profileAttribute vcs userProfileInfo (obj # fileContent) =
     (case find (\<lambda>v. vcType v = Some (variantVcType obj) \<and> docFormat v = Some (variantFormat obj) \<and>
                      docType v = fileName) vcs of
        Some v \<Rightarrow> matchInVC cfg obj v profileAttribute userProfileInfo
      | None \<Rightarrow> matchVariants cfg fileName profileAttribute vcs userProfileInfo fileContent)"

definition matchAttributeValue ::
  "validatorConfig \<Rightarrow> string \<Rightarrow> string \<Rightarrow> vc list \<Rightarrow> (string \<times> jsval) list \<Rightarrow> error + bool" where
  "matchAttributeValue cfg fileName profileAttribute vcs userProfileInfo =
     (case docToFieldMaps cfg fileName of
        None \<Rightarrow> Inl FileError
      | Some fileContent \<Rightarrow> matchVariants cfg fileName profileAttribute vcs userProfileInfo fileContent)"

subsection \<open>Matching the profile\<close>

record verificationResult =
  attribute :: string
  verified :: bool
  docsUsed :: "string list"

text \<open>The inner loop of \<^verbatim>\<open>matchUserData\<close> over the document types configured
  for one attribute, with the loop's variables \<^verbatim>\<open>verified\<close> and
  \<^verbatim>\<open>docsUsed\<close>.\<close>

fun matchFiles ::
  "validatorConfig \<Rightarrow> string \<Rightarrow> vc list \<Rightarrow> (string \<times> jsval) list \<Rightarrow> string list \<Rightarrow>
   bool \<times> string list \<Rightarrow> error + (bool \<times> string list)" where
  "matchFiles cfg profileAttribute vcs userProfileInfo [] st = Inr st"
| "matchFiles cfg profileAttribute vcs userProfileInfo (fileName # files) st =
     (case matchAttributeValue cfg fileName profileAttribute vcs userProfileInfo of
        Inl e \<Rightarrow> Inl e
      | Inr matched \<Rightarrow>
          matchFiles cfg profileAttribute vcs userProfileInfo files
            (if matched then (True, snd st @ [fileName]) else st))"

text \<open>The outer loop over \<^verbatim>\<open>Object.keys(userProfileInfo)\<close>; an attribute without
  an entry in \<^verbatim>\<open>config.json\<close> makes \<^verbatim>\<open>for (... of files)\<close> throw.\<close>

fun matchAttributes ::
  "validatorConfig \<Rightarrow> vc list \<Rightarrow> (string \<times> jsval) list \<Rightarrow> string list \<Rightarrow>
   verificationResult list \<Rightarrow> error + verificationResult list" where
  "matchAttributes cfg vcs userProfileInfo [] response = Inr response"
| "matchAttributes cfg vcs userProfileInfo (profileAttribute # keys) response =
     (case config cfg profileAttribute of
        None \<Rightarrow> Inl TypeError
      | Some files \<Rightarrow>
          (case matchFiles cfg profileAttribute vcs userProfileInfo files (False, []) of
             Inl e \<Rightarrow> Inl e
           | Inr (v, ds) \<Rightarrow>
               matchAttributes cfg vcs userProfileInfo keys
                 (response @ [\<lparr>attribute = profileAttribute, verified = v, docsUsed = ds\<rparr>])))"

definition matchUserData ::
  "validatorConfig \<Rightarrow> (string \<times> jsval) list \<Rightarrow> vc list \<Rightarrow> error + verificationResult list" where
  "matchUserData cfg userProfileInfo vcs =
     matchAttributes cfg vcs userProfileInfo (map fst userProfileInfo) []"

subsection \<open>Describing a match\<close>

text \<open>The credential that \<^verbatim>\<open>vcs.find\<close> returns for an entry of a document type's
  file.\<close>

definition variantHasVC :: "string \<Rightarrow> vc list \<Rightarrow> docVariant \<Rightarrow> vc option" where
  "variantHasVC fileName vcs obj =
     find (\<lambda>v. vcType v = Some (variantVcType obj) \<and> docFormat v = Some (variantFormat obj) \<and>
               docType v = fileName) vcs"

text \<open>The document types configured for an attribute, those among them that match, and
  the condition that the validation of an attribute throws nowhere.\<close>

definition candidateFiles :: "validatorConfig \<Rightarrow> string \<Rightarrow> string list" where
  "candidateFiles cfg a = (case config cfg a of Some files \<Rightarrow> files | None \<Rightarrow> [])"

definition matchingDocs :: "validatorConfig \<Rightarrow> vc list \<Rightarrow> (string \<times> jsval) list \<Rightarrow> string \<Rightarrow> string list" where
  "matchingDocs cfg vcs prof a =
     filter (\<lambda>f. matchAttributeValue cfg f a vcs prof = Inr True) (candidateFiles cfg a)"

definition evaluates :: "validatorConfig \<Rightarrow> vc list \<Rightarrow> (string \<times> jsval) list \<Rightarrow> string \<Rightarrow> bool" where
  "evaluates cfg vcs prof a =
     (config cfg a \<noteq> None \<and>
      list_all (\<lambda>f. returns (matchAttributeValue cfg f a vcs prof)) (candidateFiles cfg a))"

text \<open>Whether the full name is read in place of the attribute, and the path that
  \<^verbatim>\<open>matchAttributeValue\<close> resolves.\<close>

definition usesFullName :: "vc \<Rightarrow> string \<Rightarrow> bool" where
  "usesFullName v a = (a \<in> set nameAttributes \<and> vcType v = Some ''digilocker'')"

definition attributePath :: "docVariant \<Rightarrow> vc \<Rightarrow> string \<Rightarrow> string option" where
  "attributePath obj v a =
     (if usesFullName v a then variantFields obj ''name'' else variantFields obj a)"

section \<open>The specification's reading of a roman numeral\<close>

text \<open>The specification describes the conversion in words: scan left to right; a symbol
  whose value is less than the next symbol's value is subtracted, any other is added. This
  is that description, on the list of the symbols' values.\<close>

fun subtractivePairValue :: "int list \<Rightarrow> int" where
  "subtractivePairValue [] = 0"
| "subtractivePairValue [x] = x"
| "subtractivePairValue (x # y # r) = (if x < y then - x else x) + subtractivePairValue (y # r)"

section \<open>Roman numerals and the class field\<close>

lemma romanMap_pos: "romanMap k = Some x \<Longrightarrow> 0 < x"
  by (auto simp: romanMap_def split: if_splits)

lemma romanLoop_pairs:
  "map romanMap ks = map Some vs \<Longrightarrow> romanLoop (Some t) ks = Some (t + subtractivePairValue vs)"
proof (induction ks arbitrary: t vs)
  case Nil
  then show ?case by simp
next
  case (Cons k ks)
  from Cons.prems obtain x vs' where vs: "vs = x # vs'" and k: "romanMap k = Some x"
    and rest: "map romanMap ks = map Some vs'"
    by (cases vs) auto
  show ?case
  proof (cases ks)
    case Nil
    with rest have "vs' = []" by simp
    with Nil vs k romanMap_pos [OF k] show ?thesis by simp
  next
    case (Cons k' ks')
    with rest obtain y vs'' where vs': "vs' = y # vs''" and k': "romanMap k' = Some y"
      by (cases vs') auto
    have IH: "\<And>t. romanLoop (Some t) ks = Some (t + subtractivePairValue vs')"
      using Cons.IH [OF rest] .
    show ?thesis
      using k k' vs vs' Cons IH by (simp del: romanLoop.simps(2) add: romanLoop.simps(2) [of _ k])
  qed
qed

lemma romanToInt_string:
  assumes "map (\<lambda>c. romanMap [c]) s = map Some vs"
  shows "romanToInt (JStr s) = Fin (subtractivePairValue vs) 0"
proof -
  have "map romanMap (map (\<lambda>c. [c]) s) = map Some vs"
    using assms by (simp add: comp_def)
  from romanLoop_pairs [OF this, of 0] show ?thesis
    by (simp add: romanToInt_def)
qed

lemma handleClassField_falsy_conversion:
  "truthy (getValue v pathValue) \<Longrightarrow> \<not> truthy (JNum (romanToInt (getValue v pathValue))) \<Longrightarrow>
   handleClassField v pathValue = getValue v pathValue"
  by (simp add: handleClassField_def Let_def)

text \<open>
  Claim C7. \<^verbatim>\<open>romanToInt\<close> computes the left-to-right subtractive-pair value of a
  string of roman symbols: on every string whose characters are all in the symbol table it
  returns the value the specification's description gives for the symbols' values. In
  particular \<^verbatim>\<open>romanToInt("IV") = 4\<close>, \<^verbatim>\<open>romanToInt("IX") = 9\<close> and
  \<^verbatim>\<open>romanToInt("XII") = 12\<close>. And the class transform returns the raw extracted
  value itself, not \<^verbatim>\<open>null\<close>, whenever that value is truthy (so not empty) and
  its roman conversion yields 0; it does the same when the conversion yields
  \<^verbatim>\<open>NaN\<close>, which is what a string with a symbol outside the table gives.
\<close>

theorem romanToInt_subtractive_pairs:
  "(\<forall>s vs. map (\<lambda>c. romanMap [c]) s = map Some vs \<longrightarrow>
       romanToInt (JStr s) = Fin (subtractivePairValue vs) 0) \<and>
   romanToInt (JStr ''IV'') = Fin 4 0 \<and>
   romanToInt (JStr ''IX'') = Fin 9 0 \<and>
   romanToInt (JStr ''XII'') = Fin 12 0 \<and>
   (\<forall>v pathValue.
       truthy (getValue v pathValue) \<and>
       (numIsZero (romanToInt (getValue v pathValue)) \<or>
        numIsNaN (romanToInt (getValue v pathValue))) \<longrightarrow>
       handleClassField v pathValue = getValue v pathValue)"
proof (intro conjI allI impI)
  fix s vs
  assume "map (\<lambda>c. romanMap [c]) s = map Some vs"
  then show "romanToInt (JStr s) = Fin (subtractivePairValue vs) 0"
    by (rule romanToInt_string)
next
  show "romanToInt (JStr ''IV'') = Fin 4 0"
    by (simp add: romanToInt_def romanMap_def)
next
  show "romanToInt (JStr ''IX'') = Fin 9 0"
    by (simp add: romanToInt_def romanMap_def)
next
  show "romanToInt (JStr ''XII'') = Fin 12 0"
    by (simp add: romanToInt_def romanMap_def)
next
  fix v pathValue
  assume "truthy (getValue v pathValue) \<and>
       (numIsZero (romanToInt (getValue v pathValue)) \<or>
        numIsNaN (romanToInt (getValue v pathValue)))"
  then show "handleClassField v pathValue = getValue v pathValue"
    by (intro handleClassField_falsy_conversion) auto
qed

text \<open>The theorem at \<^verbatim>\<open>"XIV"\<close>, at a credential whose class is the number 8
  (a number has no length, the conversion yields 0, and 8 is returned), and at one
  whose class is the string \<^verbatim>\<open>"8"\<close> (the conversion yields \<^verbatim>\<open>NaN\<close>).\<close>

theorem romanToInt_subtractive_pairs_witness:
  "map (\<lambda>c. romanMap [c]) ''XIV'' = map Some [10, 1, 5] \<and>
   romanToInt (JStr ''XIV'') = Fin 14 0 \<and>
   numIsZero (romanToInt (JNum (Fin 8 0))) \<and>
   handleClassField \<lparr>docType = ''marksheet'', vcType = None, docFormat = None,
                     content = JObj [(''class'', JNum (Fin 8 0))]\<rparr> (Some ''class'')
     = JNum (Fin 8 0) \<and>
   numIsNaN (romanToInt (JStr ''8'')) \<and>
   handleClassField \<lparr>docType = ''marksheet'', vcType = None, docFormat = None,
                     content = JObj [(''class'', JStr ''8'')]\<rparr> (Some ''class'')
     = JStr ''8''"
proof -
  let ?v = "\<lambda>x. \<lparr>docType = ''marksheet'', vcType = None, docFormat = None,
                   content = JObj [(''class'', x)]\<rparr>"
  have keys: "map (\<lambda>c. romanMap [c]) ''XIV'' = map Some [10, 1, 5]"
    by (simp add: romanMap_def)
  have val: "getValue (?v (JNum (Fin 8 0))) (Some ''class'') = JNum (Fin 8 0)"
    and val': "getValue (?v (JStr ''8'')) (Some ''class'') = JStr ''8''"
    by (simp_all add: getValue_def)
  have zero: "numIsZero (romanToInt (JNum (Fin 8 0)))"
    by (simp add: romanToInt_def numIsZero_def)
  have nan: "numIsNaN (romanToInt (JStr ''8''))"
    by (simp add: romanToInt_def numIsNaN_def romanMap_def)
  have tr: "truthy (JNum (Fin 8 0))" "truthy (JStr ''8'')"
    by (simp_all add: numIsZero_def numIsNaN_def)
  note T = romanToInt_subtractive_pairs
  from T keys
  have "romanToInt (JStr ''XIV'') = Fin (subtractivePairValue [10, 1, 5]) 0"
    by blast
  then have xiv: "romanToInt (JStr ''XIV'') = Fin 14 0"
    by simp
  from T have cls: "truthy (getValue v p) \<and>
       (numIsZero (romanToInt (getValue v p)) \<or> numIsNaN (romanToInt (getValue v p))) \<Longrightarrow>
       handleClassField v p = getValue v p" for v p
    by blast
  have c1: "handleClassField (?v (JNum (Fin 8 0))) (Some ''class'') = JNum (Fin 8 0)"
    using cls [of "?v (JNum (Fin 8 0))" "Some ''class''"] zero tr(1) unfolding val by blast
  have c2: "handleClassField (?v (JStr ''8'')) (Some ''class'') = JStr ''8''"
    using cls [of "?v (JStr ''8'')" "Some ''class''"] nan tr(2) unfolding val' by blast
  from keys xiv zero c1 nan c2 show ?thesis by blast
qed

section \<open>The scan of the candidates of a field\<close>

lemma scanCandidates_cong:
  "(\<And>d. d \<in> set cands \<Longrightarrow>
      find (\<lambda>v. docType v = d) vcs = find (\<lambda>v. docType v = d) vcs') \<Longrightarrow>
   scanCandidates h vp vcs f val cands = scanCandidates h vp vcs' f val cands"
proof (induction cands arbitrary: val)
  case Nil
  show ?case by simp
next
  case (Cons d cands)
  have same: "find (\<lambda>v. docType v = d) vcs = find (\<lambda>v. docType v = d) vcs'"
    by (rule Cons.prems) simp
  have IH: "\<And>val. scanCandidates h vp vcs f val cands = scanCandidates h vp vcs' f val cands"
    by (rule Cons.IH) (simp add: Cons.prems)
  show ?case
    by (simp add: same IH split: option.splits sum.splits)
qed

lemma buildFields_cong:
  "(\<And>d. find (\<lambda>v. docType v = d) vcs = find (\<lambda>v. docType v = d) vcs') \<Longrightarrow>
   buildFields h vp vcs pf acc = buildFields h vp vcs' pf acc"
proof (induction pf arbitrary: acc)
  case Nil
  show ?case by simp
next
  case (Cons fc pf)
  obtain f c where fc: "fc = (f, c)" by (cases fc)
  have s: "scanCandidates h vp vcs f JNull c = scanCandidates h vp vcs' f JNull c"
    by (rule scanCandidates_cong) (rule Cons.prems)
  show ?case
    unfolding fc by (simp add: s Cons.IH [OF Cons.prems] split: sum.splits prod.splits)
qed

lemma find_drop_later:
  "P v1 = P v2 \<Longrightarrow> find P (a @ v1 # b @ v2 # c) = find P (a @ v1 # b @ c)"
proof (induction a)
  case Nil
  then show ?case by (induction b) auto
next
  case (Cons x a)
  then show ?case by simp
qed

lemma scan_first_truthy:
  "list_all (yieldsNothing h vp vcs field) pre \<Longrightarrow>
   find (\<lambda>v. docType v = i) vcs = Some vi \<Longrightarrow>
   getFieldValueFromVC h vp vi field = Inr value \<Longrightarrow> truthy value \<Longrightarrow>
   scanCandidates h vp vcs field val (pre @ i # rest) = Inr (value, [i])"
proof (induction pre arbitrary: val)
  case Nil
  then show ?case by (auto dest: find_Some_iff [THEN iffD1])
next
  case (Cons d pre)
  then show ?case
    by (auto simp: yieldsNothing_def split: option.splits sum.splits)
qed

lemma buildFields_other:
  "buildFields h vp vcs pf acc = Inr r \<Longrightarrow> f \<notin> fst ` set pf \<Longrightarrow>
   userProfile r f = userProfile acc f \<and> validationData r f = validationData acc f"
proof (induction pf arbitrary: acc)
  case Nil
  then show ?case by simp
next
  case (Cons fc pf)
  then show ?case
    by (cases fc) (auto split: sum.splits prod.splits)
qed

lemma buildFields_field:
  "buildFields h vp vcs pf acc = Inr r \<Longrightarrow> distinct (map fst pf) \<Longrightarrow> (f, c) \<in> set pf \<Longrightarrow>
   \<exists>value docs. scanCandidates h vp vcs f JNull c = Inr (value, docs) \<and>
      userProfile r f = Some value \<and> validationData r f = Some docs"
proof (induction pf arbitrary: acc)
  case Nil
  then show ?case by simp
next
  case (Cons fc pf)
  obtain f' c' where fc: "fc = (f', c')" by (cases fc)
  from Cons.prems(1) obtain x ds where
    s: "scanCandidates h vp vcs f' JNull c' = Inr (x, ds)" and
    b: "buildFields h vp vcs pf
          (acc\<lparr>userProfile := (userProfile acc)(f' \<mapsto> x),
               validationData := (validationData acc)(f' \<mapsto> ds)\<rparr>) = Inr r"
    unfolding fc by (auto split: sum.splits prod.splits)
  show ?case
  proof (cases "(f, c) = (f', c')")
    case True
    from Cons.prems(2) have "f' \<notin> fst ` set pf" unfolding fc by simp
    from buildFields_other [OF b this] True s show ?thesis by simp
  next
    case False
    with Cons.prems(3) have "(f, c) \<in> set pf" unfolding fc by auto
    moreover from Cons.prems(2) have "distinct (map fst pf)" by simp
    ultimately show ?thesis using Cons.IH [OF b] by blast
  qed
qed

lemma scan_no_truthy_last:
  "list_all (yieldsNothing h vp vcs field) cands \<Longrightarrow>
   scanCandidates h vp vcs field val cands
     = Inr (last (val # consultedValues h vp vcs field cands), [])"
proof (induction cands arbitrary: val)
  case Nil
  then show ?case by (simp add: consultedValues_def map_filter_simps)
next
  case (Cons d cands)
  then show ?case
    by (auto simp: yieldsNothing_def consultedValues_def map_filter_simps split: option.splits sum.splits)
qed

lemma consulted_falsy:
  "list_all (yieldsNothing h vp vcs field) cands \<Longrightarrow>
   list_all (\<lambda>x. \<not> truthy x) (consultedValues h vp vcs field cands)"
proof (induction cands)
  case Nil
  then show ?case by (simp add: consultedValues_def map_filter_simps)
next
  case (Cons d cands)
  then show ?case
    by (auto simp: yieldsNothing_def consultedValues_def map_filter_simps split: option.splits sum.splits)
qed

lemmas eval_builder =
  buildProfile_def getFieldValueFromVC_def getValue_def yieldsNothing_def consultedValues_def
  map_filter_simps

text \<open>
  Claim C5, as the code has it. If no candidate document type of a field yields a truthy
  value (each has no credential in the set, or the extraction from its first credential
  returns a falsy value without throwing), the scan ends with an empty provenance list and
  with the value the last consulted candidate returned, which is falsy: \<^verbatim>\<open>null\<close>
  when no candidate was consulted or the last one returned \<^verbatim>\<open>null\<close>, and otherwise
  the empty string, 0, \<^verbatim>\<open>false\<close> or \<^verbatim>\<open>NaN\<close> it returned. When
  \<^verbatim>\<open>buildProfile\<close> returns, these are the field's entries of its two maps.
\<close>

theorem buildProfile_no_value:
  assumes "list_all (yieldsNothing h vp vcs field) vcArray"
  shows "scanCandidates h vp vcs field JNull vcArray
           = Inr (last (JNull # consultedValues h vp vcs field vcArray), []) \<and>
         \<not> truthy (last (JNull # consultedValues h vp vcs field vcArray)) \<and>
         (\<forall>profileFields r.
            distinct (map fst profileFields) \<and> (field, vcArray) \<in> set profileFields \<and>
            buildProfile h profileFields vp vcs = Inr r \<longrightarrow>
            userProfile r field = Some (last (JNull # consultedValues h vp vcs field vcArray)) \<and>
            validationData r field = Some [])"
proof -
  let ?x = "last (JNull # consultedValues h vp vcs field vcArray)"
  have s: "scanCandidates h vp vcs field JNull vcArray = Inr (?x, [])"
    by (rule scan_no_truthy_last [OF assms])
  have "list_all (\<lambda>x. \<not> truthy x) (JNull # consultedValues h vp vcs field vcArray)"
    using consulted_falsy [OF assms] by simp
  then have f: "\<not> truthy ?x"
    unfolding list_all_iff using last_in_set [of "JNull # consultedValues h vp vcs field vcArray"]
    by blast
  have "userProfile r field = Some ?x \<and> validationData r field = Some []"
    if "distinct (map fst profileFields)" "(field, vcArray) \<in> set profileFields"
       "buildProfile h profileFields vp vcs = Inr r" for profileFields r
    using buildFields_field [OF that(3) [unfolded buildProfile_def] that(1) that(2)] s by auto
  with s f show ?thesis by blast
qed


text \<open>The claim as stated fails on a credential whose caste is the empty string: the
  field is the empty string, not \<^verbatim>\<open>null\<close>.\<close>

theorem buildProfile_no_value_counterexample:
  "\<exists>r. buildProfile \<lparr>nativeDate = (\<lambda>v. None), parseCoerces = False\<rparr>
          [(''caste'', [''casteCertificate''])]
          (\<lambda>d. Parsed [''caste'' \<mapsto> ''credentialSubject.caste''])
          [\<lparr>docType = ''casteCertificate'', vcType = None, docFormat = None,
            content = JObj [(''credentialSubject'', JObj [(''caste'', JStr [])])]\<rparr>] = Inr r \<and>
       userProfile r ''caste'' = Some (JStr []) \<and>
       userProfile r ''caste'' \<noteq> Some JNull \<and>
       validationData r ''caste'' = Some []"
  by (simp add: eval_builder)

theorem buildProfile_no_value_witness:
  "list_all (yieldsNothing \<lparr>nativeDate = (\<lambda>v. None), parseCoerces = False\<rparr>
               (\<lambda>d. if d = ''marksheet'' then Unreadable
                    else Parsed [''caste'' \<mapsto> ''credentialSubject.caste''])
               [\<lparr>docType = ''casteCertificate'', vcType = None, docFormat = None,
                 content = JObj [(''credentialSubject'', JObj [(''caste'', JStr [])])]\<rparr>]
               ''caste'')
      [''casteCertificate'', ''marksheet''] \<and>
   (\<exists>r. buildProfile \<lparr>nativeDate = (\<lambda>v. None), parseCoerces = False\<rparr>
          [(''caste'', [''casteCertificate'', ''marksheet''])]
          (\<lambda>d. if d = ''marksheet'' then Unreadable
               else Parsed [''caste'' \<mapsto> ''credentialSubject.caste''])
          [\<lparr>docType = ''casteCertificate'', vcType = None, docFormat = None,
            content = JObj [(''credentialSubject'', JObj [(''caste'', JStr [])])]\<rparr>] = Inr r \<and>
       userProfile r ''caste'' = Some (JStr []) \<and> validationData r ''caste'' = Some [])"
proof -
  let ?h = "\<lparr>nativeDate = (\<lambda>v. None), parseCoerces = False\<rparr>"
  let ?vp = "\<lambda>d. if d = ''marksheet'' then Unreadable
                  else Parsed [''caste'' \<mapsto> ''credentialSubject.caste'']"
  let ?vcs = "[\<lparr>docType = ''casteCertificate'', vcType = None, docFormat = None,
            content = JObj [(''credentialSubject'', JObj [(''caste'', JStr [])])]\<rparr>]"
  let ?pf = "[(''caste'', [''casteCertificate'', ''marksheet''])]"
  have hyp: "list_all (yieldsNothing ?h ?vp ?vcs ''caste'') [''casteCertificate'', ''marksheet'']"
    by (simp add: eval_builder)
  have ret: "\<exists>r. buildProfile ?h ?pf ?vp ?vcs = Inr r"
    by (simp add: eval_builder)
  have last: "last (JNull # consultedValues ?h ?vp ?vcs ''caste'' [''casteCertificate'', ''marksheet''])
                = JStr []"
    by (simp add: eval_builder)
  from ret obtain r where r: "buildProfile ?h ?pf ?vp ?vcs = Inr r" ..
  have pf: "distinct (map fst ?pf) \<and> (''caste'', [''casteCertificate'', ''marksheet'']) \<in> set ?pf"
    by simp
  from buildProfile_no_value [OF hyp, THEN conjunct2, THEN conjunct2, rule_format, of ?pf r] pf r
  have "userProfile r ''caste'' = Some (last (JNull # consultedValues ?h ?vp ?vcs ''caste''
            [''casteCertificate'', ''marksheet''])) \<and> validationData r ''caste'' = Some []"
    by blast
  then have "userProfile r ''caste'' = Some (JStr []) \<and> validationData r ''caste'' = Some []"
    unfolding last .
  with r hyp show ?thesis by blast
qed

text \<open>
  Claim C1, as the code has it. For every field and every supplied set of credentials: if
  candidate document type \<open>i\<close> is preceded in the priority list only by candidates that
  yield nothing (no credential, or a falsy value without throwing), and the first
  credential of type \<open>i\<close> yields a truthy value, then the scan of the field returns that
  value with provenance \<open>[i]\<close>, whatever candidates follow \<open>i\<close>: nothing is assumed
  about them, their credentials or their path files, so a candidate after \<open>i\<close> is never
  consulted. When \<^verbatim>\<open>buildProfile\<close> returns, these are the field's entries of its two
  maps.
\<close>

theorem buildProfile_first_wins:
  assumes "list_all (yieldsNothing h vp vcs field) pre"
    and "find (\<lambda>v. docType v = i) vcs = Some vi"
    and "getFieldValueFromVC h vp vi field = Inr x"
    and "truthy x"
  shows "(\<forall>rest. scanCandidates h vp vcs field JNull (pre @ i # rest) = Inr (x, [i])) \<and>
         (\<forall>profileFields rest r.
            distinct (map fst profileFields) \<and> (field, pre @ i # rest) \<in> set profileFields \<and>
            buildProfile h profileFields vp vcs = Inr r \<longrightarrow>
            userProfile r field = Some x \<and> validationData r field = Some [i])"
proof -
  have s: "scanCandidates h vp vcs field JNull (pre @ i # rest) = Inr (x, [i])" for rest
    by (rule scan_first_truthy [OF assms])
  have "userProfile r field = Some x \<and> validationData r field = Some [i]"
    if "distinct (map fst profileFields)" "(field, pre @ i # rest) \<in> set profileFields"
       "buildProfile h profileFields vp vcs = Inr r" for profileFields rest r
    using buildFields_field [OF that(3) [unfolded buildProfile_def] that(1) that(2)] s by auto
  with s show ?thesis by blast
qed

text \<open>The claim as stated asks this of every candidate \<open>i\<close> that precedes another. It
  fails when an earlier candidate already yields a value: with the priority list
  \<^verbatim>\<open>casteCertificate, incomeCertificate, marksheet\<close>, the second precedes the third
  and yields \<^verbatim>\<open>"SC"\<close>, but the field is the first one's \<^verbatim>\<open>"OBC"\<close>.\<close>

theorem buildProfile_first_wins_counterexample:
  "find (\<lambda>v. docType v = ''incomeCertificate'')
     [\<lparr>docType = ''casteCertificate'', vcType = None, docFormat = None,
       content = JObj [(''caste'', JStr ''OBC'')]\<rparr>,
      \<lparr>docType = ''incomeCertificate'', vcType = None, docFormat = None,
       content = JObj [(''caste'', JStr ''SC'')]\<rparr>]
     = Some \<lparr>docType = ''incomeCertificate'', vcType = None, docFormat = None,
             content = JObj [(''caste'', JStr ''SC'')]\<rparr> \<and>
   getFieldValueFromVC \<lparr>nativeDate = (\<lambda>v. None), parseCoerces = False\<rparr>
     (\<lambda>d. Parsed [''caste'' \<mapsto> ''caste''])
     \<lparr>docType = ''incomeCertificate'', vcType = None, docFormat = None,
      content = JObj [(''caste'', JStr ''SC'')]\<rparr> ''caste'' = Inr (JStr ''SC'') \<and>
   truthy (JStr ''SC'') \<and>
   (\<exists>r. buildProfile \<lparr>nativeDate = (\<lambda>v. None), parseCoerces = False\<rparr>
          [(''caste'', [''casteCertificate'', ''incomeCertificate'', ''marksheet''])]
          (\<lambda>d. Parsed [''caste'' \<mapsto> ''caste''])
          [\<lparr>docType = ''casteCertificate'', vcType = None, docFormat = None,
            content = JObj [(''caste'', JStr ''OBC'')]\<rparr>,
           \<lparr>docType = ''incomeCertificate'', vcType = None, docFormat = None,
            content = JObj [(''caste'', JStr ''SC'')]\<rparr>] = Inr r \<and>
        userProfile r ''caste'' = Some (JStr ''OBC'') \<and>
        userProfile r ''caste'' \<noteq> Some (JStr ''SC'') \<and>
        validationData r ''caste'' = Some [''casteCertificate''])"
  by (simp add: eval_builder)

text \<open>The theorem at a set where \<^verbatim>\<open>aadhaar\<close> has no credential, the
  \<^verbatim>\<open>casteCertificate\<close> holds an empty caste, and the path file of
  \<^verbatim>\<open>marksheet\<close>, the candidate after \<^verbatim>\<open>incomeCertificate\<close>, cannot be read:
  consulting it would throw.\<close>

theorem buildProfile_first_wins_witness:
  "list_all (yieldsNothing \<lparr>nativeDate = (\<lambda>v. None), parseCoerces = False\<rparr>
               (\<lambda>d. if d = ''marksheet'' then Unreadable else Parsed [''caste'' \<mapsto> ''caste''])
               [\<lparr>docType = ''casteCertificate'', vcType = None, docFormat = None,
                 content = JObj [(''caste'', JStr [])]\<rparr>,
                \<lparr>docType = ''incomeCertificate'', vcType = None, docFormat = None,
                 content = JObj [(''caste'', JStr ''SC'')]\<rparr>,
                \<lparr>docType = ''marksheet'', vcType = None, docFormat = None,
                 content = JObj [(''caste'', JStr ''ST'')]\<rparr>]
               ''caste'')
      [''aadhaar'', ''casteCertificate''] \<and>
   truthy (JStr ''SC'') \<and>
   scanCandidates \<lparr>nativeDate = (\<lambda>v. None), parseCoerces = False\<rparr>
     (\<lambda>d. if d = ''marksheet'' then Unreadable else Parsed [''caste'' \<mapsto> ''caste''])
     [\<lparr>docType = ''casteCertificate'', vcType = None, docFormat = None,
       content = JObj [(''caste'', JStr [])]\<rparr>,
      \<lparr>docType = ''incomeCertificate'', vcType = None, docFormat = None,
       content = JObj [(''caste'', JStr ''SC'')]\<rparr>,
      \<lparr>docType = ''marksheet'', vcType = None, docFormat = None,
       content = JObj [(''caste'', JStr ''ST'')]\<rparr>]
     ''caste'' JNull [''aadhaar'', ''casteCertificate'', ''incomeCertificate'', ''marksheet'']
     = Inr (JStr ''SC'', [''incomeCertificate'']) \<and>
   (\<exists>r. buildProfile \<lparr>nativeDate = (\<lambda>v. None), parseCoerces = False\<rparr>
          [(''caste'', [''aadhaar'', ''casteCertificate'', ''incomeCertificate'', ''marksheet''])]
          (\<lambda>d. if d = ''marksheet'' then Unreadable else Parsed [''caste'' \<mapsto> ''caste''])
          [\<lparr>docType = ''casteCertificate'', vcType = None, docFormat = None,
            content = JObj [(''caste'', JStr [])]\<rparr>,
           \<lparr>docType = ''incomeCertificate'', vcType = None, docFormat = None,
            content = JObj [(''caste'', JStr ''SC'')]\<rparr>,
           \<lparr>docType = ''marksheet'', vcType = None, docFormat = None,
            content = JObj [(''caste'', JStr ''ST'')]\<rparr>] = Inr r \<and>
        userProfile r ''caste'' = Some (JStr ''SC'') \<and>
        validationData r ''caste'' = Some [''incomeCertificate''])"
proof -
  let ?h = "\<lparr>nativeDate = (\<lambda>v. None), parseCoerces = False\<rparr>"
  let ?vp = "\<lambda>d. if d = ''marksheet'' then Unreadable else Parsed [''caste'' \<mapsto> ''caste'']"
  let ?vi = "\<lparr>docType = ''incomeCertificate'', vcType = None, docFormat = None,
              content = JObj [(''caste'', JStr ''SC'')]\<rparr>"
  let ?vcs = "[\<lparr>docType = ''casteCertificate'', vcType = None, docFormat = None,
                content = JObj [(''caste'', JStr [])]\<rparr>, ?vi,
               \<lparr>docType = ''marksheet'', vcType = None, docFormat = None,
                content = JObj [(''caste'', JStr ''ST'')]\<rparr>]"
  have pre: "list_all (yieldsNothing ?h ?vp ?vcs ''caste'') [''aadhaar'', ''casteCertificate'']"
    by (simp add: eval_builder)
  have fnd: "find (\<lambda>v. docType v = ''incomeCertificate'') ?vcs = Some ?vi"
    by simp
  have val: "getFieldValueFromVC ?h ?vp ?vi ''caste'' = Inr (JStr ''SC'')"
    by (simp add: eval_builder)
  have tr: "truthy (JStr ''SC'')"
    by simp
  let ?pf = "[(''caste'', [''aadhaar'', ''casteCertificate'', ''incomeCertificate'', ''marksheet''])]"
  note first = buildProfile_first_wins [OF pre fnd val tr]
  from first [THEN conjunct1, rule_format, of "[''marksheet'']"]
  have scan: "scanCandidates ?h ?vp ?vcs ''caste'' JNull
          [''aadhaar'', ''casteCertificate'', ''incomeCertificate'', ''marksheet'']
        = Inr (JStr ''SC'', [''incomeCertificate''])"
    by simp
  have "\<exists>r. buildProfile ?h ?pf ?vp ?vcs = Inr r"
    by (simp add: eval_builder)
  then obtain r where r: "buildProfile ?h ?pf ?vp ?vcs = Inr r" ..
  have pf: "distinct (map fst ?pf) \<and>
            (''caste'', [''aadhaar'', ''casteCertificate''] @ ''incomeCertificate'' # [''marksheet''])
              \<in> set ?pf"
    by simp
  from first [THEN conjunct2, rule_format, of ?pf "[''marksheet'']" r] pf r
  have "userProfile r ''caste'' = Some (JStr ''SC'') \<and>
        validationData r ''caste'' = Some [''incomeCertificate'']"
    by blast
  with pre tr scan r show ?thesis by blast
qed

lemma find_first_here:
  "find P a = None \<Longrightarrow> P v \<Longrightarrow> find P (a @ v # r) = Some v"
  by (induction a) (auto split: if_splits)

text \<open>
  Claim C10. For every field and candidate document type, \<^verbatim>\<open>buildProfile\<close>
  consults only the first credential of that type in the supplied set: a later credential
  of the same type can be removed from the set without changing the result (values,
  provenance, or the error thrown). And when that first credential gives a falsy value
  for the field, the scan goes on with the next candidate document type.
\<close>

theorem buildProfile_first_vc_only:
  assumes "docType v2 = docType v1"
  shows "buildProfile h profileFields vp (a @ v1 # b @ v2 # c)
           = buildProfile h profileFields vp (a @ v1 # b @ c) \<and>
         (\<forall>field val rest x.
            find (\<lambda>v. docType v = docType v1) a = None \<and>
            getFieldValueFromVC h vp v1 field = Inr x \<and> \<not> truthy x \<longrightarrow>
            scanCandidates h vp (a @ v1 # b @ v2 # c) field val (docType v1 # rest)
              = scanCandidates h vp (a @ v1 # b @ c) field x rest)"
proof -
  have same: "find (\<lambda>v. docType v = d) (a @ v1 # b @ v2 # c)
                = find (\<lambda>v. docType v = d) (a @ v1 # b @ c)" for d
    by (rule find_drop_later) (simp add: assms)
  have whole: "buildProfile h profileFields vp (a @ v1 # b @ v2 # c)
                 = buildProfile h profileFields vp (a @ v1 # b @ c)"
    unfolding buildProfile_def by (rule buildFields_cong) (rule same)
  have step: "scanCandidates h vp (a @ v1 # b @ v2 # c) field val (docType v1 # rest)
                = scanCandidates h vp (a @ v1 # b @ c) field x rest"
    if "find (\<lambda>v. docType v = docType v1) a = None"
       "getFieldValueFromVC h vp v1 field = Inr x" "\<not> truthy x" for field val rest x
  proof -
    have "find (\<lambda>v. docType v = docType v1) (a @ v1 # b @ v2 # c) = Some v1"
      using that(1) by (rule find_first_here) simp
    then have "scanCandidates h vp (a @ v1 # b @ v2 # c) field val (docType v1 # rest)
                 = scanCandidates h vp (a @ v1 # b @ v2 # c) field x rest"
      using that(2,3) by simp
    also have "\<dots> = scanCandidates h vp (a @ v1 # b @ c) field x rest"
      by (rule scanCandidates_cong) (rule same)
    finally show ?thesis .
  qed
  from whole step show ?thesis by blast
qed

text \<open>The theorem at two \<^verbatim>\<open>aadhaar\<close> credentials, the first with an empty caste
  and the second with \<^verbatim>\<open>"OBC"\<close>: the second is not read, and the value comes from
  the next candidate.\<close>

theorem buildProfile_first_vc_only_witness:
  "docType \<lparr>docType = ''aadhaar'', vcType = None, docFormat = None,
            content = JObj [(''caste'', JStr ''OBC'')]\<rparr>
     = docType \<lparr>docType = ''aadhaar'', vcType = None, docFormat = None,
                content = JObj [(''caste'', JStr [])]\<rparr> \<and>
   buildProfile \<lparr>nativeDate = (\<lambda>v. None), parseCoerces = False\<rparr>
     [(''caste'', [''aadhaar'', ''casteCertificate''])]
     (\<lambda>d. Parsed [''caste'' \<mapsto> ''caste''])
     [\<lparr>docType = ''aadhaar'', vcType = None, docFormat = None,
       content = JObj [(''caste'', JStr [])]\<rparr>,
      \<lparr>docType = ''aadhaar'', vcType = None, docFormat = None,
       content = JObj [(''caste'', JStr ''OBC'')]\<rparr>,
      \<lparr>docType = ''casteCertificate'', vcType = None, docFormat = None,
       content = JObj [(''caste'', JStr ''SC'')]\<rparr>]
   = buildProfile \<lparr>nativeDate = (\<lambda>v. None), parseCoerces = False\<rparr>
     [(''caste'', [''aadhaar'', ''casteCertificate''])]
     (\<lambda>d. Parsed [''caste'' \<mapsto> ''caste''])
     [\<lparr>docType = ''aadhaar'', vcType = None, docFormat = None,
       content = JObj [(''caste'', JStr [])]\<rparr>,
      \<lparr>docType = ''casteCertificate'', vcType = None, docFormat = None,
       content = JObj [(''caste'', JStr ''SC'')]\<rparr>] \<and>
   (\<exists>r. buildProfile \<lparr>nativeDate = (\<lambda>v. None), parseCoerces = False\<rparr>
     [(''caste'', [''aadhaar'', ''casteCertificate''])]
     (\<lambda>d. Parsed [''caste'' \<mapsto> ''caste''])
     [\<lparr>docType = ''aadhaar'', vcType = None, docFormat = None,
       content = JObj [(''caste'', JStr [])]\<rparr>,
      \<lparr>docType = ''aadhaar'', vcType = None, docFormat = None,
       content = JObj [(''caste'', JStr ''OBC'')]\<rparr>,
      \<lparr>docType = ''casteCertificate'', vcType = None, docFormat = None,
       content = JObj [(''caste'', JStr ''SC'')]\<rparr>] = Inr r \<and>
      userProfile r ''caste'' = Some (JStr ''SC'') \<and>
      validationData r ''caste'' = Some [''casteCertificate''])"
proof -
  let ?h = "\<lparr>nativeDate = (\<lambda>v. None), parseCoerces = False\<rparr>"
  let ?vp = "\<lambda>d. Parsed [''caste'' \<mapsto> ''caste'']"
  let ?v1 = "\<lparr>docType = ''aadhaar'', vcType = None, docFormat = None,
              content = JObj [(''caste'', JStr [])]\<rparr>"
  let ?v2 = "\<lparr>docType = ''aadhaar'', vcType = None, docFormat = None,
              content = JObj [(''caste'', JStr ''OBC'')]\<rparr>"
  let ?v3 = "\<lparr>docType = ''casteCertificate'', vcType = None, docFormat = None,
              content = JObj [(''caste'', JStr ''SC'')]\<rparr>"
  let ?pf = "[(''caste'', [''aadhaar'', ''casteCertificate''])]"
  have same: "docType ?v2 = docType ?v1"
    by simp
  from buildProfile_first_vc_only [OF same, THEN conjunct1, of ?h ?pf ?vp "[]" "[]" "[?v3]"]
  have eq: "buildProfile ?h ?pf ?vp [?v1, ?v2, ?v3] = buildProfile ?h ?pf ?vp [?v1, ?v3]"
    by simp
  have short: "\<exists>r. buildProfile ?h ?pf ?vp [?v1, ?v3] = Inr r \<and>
      userProfile r ''caste'' = Some (JStr ''SC'') \<and>
      validationData r ''caste'' = Some [''casteCertificate'']"
    by (simp add: eval_builder)
  show ?thesis
    unfolding eq using short by simp
qed

section \<open>The date transform\<close>

lemma formatDate_example: "formatDate \<lparr>year = 2003, month = 8, day = 5\<rparr> = ''2003-08-05''"
  by (simp add: formatDate_def padZeros_def showNat.simps)

lemma formatDate_example2: "formatDate \<lparr>year = 2003, month = 5, day = 8\<rparr> = ''2003-05-08''"
  by (simp add: formatDate_def padZeros_def showNat.simps)

lemmas eval_dfParse =
  possibleFormats_def dfParse_def parseNDigits_def isDigit_def digitsVal_def digitVal_def
  digitTable_def isWhite_def daysInMonth_def isLeapYear_def formatDate_def padZeros_def
  showNat.simps

lemma tryFormats_day_first: "tryFormats ''08-05-2003'' possibleFormats = JStr ''2003-05-08''"
  by (simp add: eval_dfParse)

lemma tryFormats_slashes: "tryFormats ''2003/05/08'' possibleFormats = JStr ''2003-05-08''"
  by (simp add: eval_dfParse)

lemma tryFormats_none:
  "list_all (\<lambda>f. dfParse s f = None) fs \<Longrightarrow> tryFormats s fs = JNull"
  by (induction fs) auto

lemma formatDateToISO_fallback_day_first:
  "nativeDate h (JStr ''08-05-2003'') = None \<Longrightarrow>
   formatDateToISO h (JStr ''08-05-2003'') = Inr (JStr ''2003-05-08'')"
  by (simp add: formatDateToISO_def tryFormats_day_first)

lemma formatDateToISO_slashes:
  "nativeDate h (JStr ''2003/05/08'') = None \<or>
   nativeDate h (JStr ''2003/05/08'') = Some \<lparr>year = 2003, month = 5, day = 8\<rparr> \<Longrightarrow>
   formatDateToISO h (JStr ''2003/05/08'') = Inr (JStr ''2003-05-08'')"
  by (auto simp: formatDateToISO_def tryFormats_slashes formatDate_example2)

lemma formatDateToISO_unparseable:
  "nativeDate h (JStr s) = None \<Longrightarrow> list_all (\<lambda>f. dfParse s f = None) possibleFormats \<Longrightarrow>
   formatDateToISO h (JStr s) = Inr JNull"
  by (simp add: formatDateToISO_def tryFormats_none)

text \<open>
  Claim C3, at the input where the code departs from it. \<^verbatim>\<open>formatDateToISO\<close>
  tries the native parse first and returns its date when it is valid; the list of formats
  is reached only when the native parse fails. A host whose native parse reads
  \<^verbatim>\<open>"08-05-2003"\<close> month first, as 5 August 2003 (the V8 engine of Node.js does),
  makes \<^verbatim>\<open>formatDateToISO("08-05-2003")\<close> return \<^verbatim>\<open>"2003-08-05"\<close>, not the
  \<^verbatim>\<open>"2003-05-08"\<close> of the claim. The lemmas above give the rest of the claim: when
  the native parse rejects the string the fallback list reads it day first, the input
  \<^verbatim>\<open>"2003/05/08"\<close> gives \<^verbatim>\<open>"2003-05-08"\<close> on either way, and a string that
  neither the native parse nor any of the six formats accepts gives \<^verbatim>\<open>null\<close>.
\<close>

theorem formatDateToISO_native_first:
  "nativeDate h (JStr ''08-05-2003'') = Some \<lparr>year = 2003, month = 8, day = 5\<rparr> \<Longrightarrow>
   formatDateToISO h (JStr ''08-05-2003'') = Inr (JStr ''2003-08-05'')"
  by (simp add: formatDateToISO_def formatDate_example)

text \<open>The theorem at a host that reads \<^verbatim>\<open>"08-05-2003"\<close> month first.\<close>

theorem formatDateToISO_native_first_witness:
  "nativeDate \<lparr>nativeDate = (\<lambda>v. if v = JStr ''08-05-2003''
                                  then Some \<lparr>year = 2003, month = 8, day = 5\<rparr> else None),
               parseCoerces = False\<rparr> (JStr ''08-05-2003'')
     = Some \<lparr>year = 2003, month = 8, day = 5\<rparr> \<and>
   formatDateToISO \<lparr>nativeDate = (\<lambda>v. if v = JStr ''08-05-2003''
                                  then Some \<lparr>year = 2003, month = 8, day = 5\<rparr> else None),
               parseCoerces = False\<rparr> (JStr ''08-05-2003'')
     = Inr (JStr ''2003-08-05'') \<and>
   formatDateToISO \<lparr>nativeDate = (\<lambda>v. if v = JStr ''08-05-2003''
                                  then Some \<lparr>year = 2003, month = 8, day = 5\<rparr> else None),
               parseCoerces = False\<rparr> (JStr ''08-05-2003'')
     \<noteq> Inr (JStr ''2003-05-08'')"
proof -
  let ?h = "\<lparr>nativeDate = (\<lambda>v. if v = JStr ''08-05-2003''
                                  then Some \<lparr>year = 2003, month = 8, day = 5\<rparr> else None),
               parseCoerces = False\<rparr>"
  have n: "nativeDate ?h (JStr ''08-05-2003'') = Some \<lparr>year = 2003, month = 8, day = 5\<rparr>"
    by simp
  from formatDateToISO_native_first [OF n] n show ?thesis
    by simp
qed

section \<open>The income transform\<close>

lemmas eval_number =
  sanitizeIncome_def jsNumber_def trimJS_def isWhite_def parseDecimal_def isDigit_def
  digitsVal_def digitVal_def digitTable_def parseRadix_def isDigitOf_def parseExponent_def
  numNeg_def

text \<open>
  Claim C6, as the code has it. The income transform maps the string
  \<^verbatim>\<open>"1,20,000"\<close> to the number 120000, the number -5 to \<^verbatim>\<open>null\<close> and the
  number \<^verbatim>\<open>NaN\<close> to \<^verbatim>\<open>null\<close>. A string never makes it throw: commas, spaces
  and apostrophes are removed and the rest is converted with \<^verbatim>\<open>Number\<close>, so a
  string that is not a numeric literal gives \<^verbatim>\<open>NaN\<close>, not \<^verbatim>\<open>null\<close> (the
  format check that would return \<^verbatim>\<open>null\<close> is commented out in the source).
\<close>

theorem handleIncomeValue_cases:
  "(getValue v p = JStr ''1,20,000'' \<longrightarrow> handleIncomeValue v p = Inr (JNum (Fin 120000 0))) \<and>
   (getValue v p = JNum (Fin (- 5) 0) \<longrightarrow> handleIncomeValue v p = Inr JNull) \<and>
   (getValue v p = JNum NaN \<longrightarrow> handleIncomeValue v p = Inr JNull) \<and>
   (\<forall>s. getValue v p = JStr s \<longrightarrow>
        handleIncomeValue v p = Inr (JNum (jsNumber (sanitizeIncome s))))"
  by (simp add: handleIncomeValue_def numIsNaN_def numNegative_def eval_number)

text \<open>The claim as stated fails on the string \<^verbatim>\<open>"12abc"\<close>, which gives
  \<^verbatim>\<open>NaN\<close>, and on a value that is neither a number nor a string, such as
  \<^verbatim>\<open>true\<close>, where \<^verbatim>\<open>value.replace\<close> throws.\<close>

theorem handleIncomeValue_counterexample:
  "handleIncomeValue \<lparr>docType = ''incomeCertificate'', vcType = None, docFormat = None,
                      content = JObj [(''income'', JStr ''12abc'')]\<rparr> (Some ''income'')
     = Inr (JNum NaN) \<and>
   handleIncomeValue \<lparr>docType = ''incomeCertificate'', vcType = None, docFormat = None,
                      content = JObj [(''income'', JStr ''12abc'')]\<rparr> (Some ''income'')
     \<noteq> Inr JNull \<and>
   handleIncomeValue \<lparr>docType = ''incomeCertificate'', vcType = None, docFormat = None,
                      content = JObj [(''income'', JBool True)]\<rparr> (Some ''income'')
     = Inl TypeError"
  by (simp add: handleIncomeValue_def getValue_def eval_number)

theorem handleIncomeValue_cases_witness:
  "handleIncomeValue \<lparr>docType = ''incomeCertificate'', vcType = None, docFormat = None,
                      content = JObj [(''income'', JStr ''1,20,000'')]\<rparr> (Some ''income'')
     = Inr (JNum (Fin 120000 0)) \<and>
   handleIncomeValue \<lparr>docType = ''incomeCertificate'', vcType = None, docFormat = None,
                      content = JObj [(''income'', JNum (Fin (- 5) 0))]\<rparr> (Some ''income'')
     = Inr JNull \<and>
   handleIncomeValue \<lparr>docType = ''incomeCertificate'', vcType = None, docFormat = None,
                      content = JObj [(''income'', JNum NaN)]\<rparr> (Some ''income'')
     = Inr JNull \<and>
   handleIncomeValue \<lparr>docType = ''incomeCertificate'', vcType = None, docFormat = None,
                      content = JObj [(''income'', JStr ''Rs 5000'')]\<rparr> (Some ''income'')
     = Inr (JNum NaN)"
proof -
  let ?vc = "\<lambda>x. \<lparr>docType = ''incomeCertificate'', vcType = None, docFormat = None,
                    content = JObj [(''income'', x)]\<rparr>"
  have g: "getValue (?vc x) (Some ''income'') = (if x = JUndefined then JNull else x)" for x
    by (simp add: getValue_def)
  have a: "getValue (?vc (JStr ''1,20,000'')) (Some ''income'') = JStr ''1,20,000''"
    and b: "getValue (?vc (JNum (Fin (- 5) 0))) (Some ''income'') = JNum (Fin (- 5) 0)"
    and c: "getValue (?vc (JNum NaN)) (Some ''income'') = JNum NaN"
    and d: "getValue (?vc (JStr ''Rs 5000'')) (Some ''income'') = JStr ''Rs 5000''"
    by (simp_all add: g)
  have n: "jsNumber (sanitizeIncome ''Rs 5000'') = NaN"
    by (simp add: eval_number)
  from handleIncomeValue_cases [of "?vc (JStr ''1,20,000'')" "Some ''income''"] a
  have 1: "handleIncomeValue (?vc (JStr ''1,20,000'')) (Some ''income'') = Inr (JNum (Fin 120000 0))"
    by blast
  from handleIncomeValue_cases [of "?vc (JNum (Fin (- 5) 0))" "Some ''income''"] b
  have 2: "handleIncomeValue (?vc (JNum (Fin (- 5) 0))) (Some ''income'') = Inr JNull"
    by blast
  from handleIncomeValue_cases [of "?vc (JNum NaN)" "Some ''income''"] c
  have 3: "handleIncomeValue (?vc (JNum NaN)) (Some ''income'') = Inr JNull"
    by blast
  from handleIncomeValue_cases [of "?vc (JStr ''Rs 5000'')" "Some ''income''"] d
  have "handleIncomeValue (?vc (JStr ''Rs 5000'')) (Some ''income'')
          = Inr (JNum (jsNumber (sanitizeIncome ''Rs 5000'')))"
    by blast
  then have 4: "handleIncomeValue (?vc (JStr ''Rs 5000'')) (Some ''income'') = Inr (JNum NaN)"
    unfolding n .
  from 1 2 3 4 show ?thesis by blast
qed

section \<open>The name fields\<close>

text \<open>\<^verbatim>\<open>split\<close> never returns an empty array, so the first and the last piece
  exist.\<close>

lemma splitOn_nonempty: "splitOn c s \<noteq> []"
  by (induction s) (auto split: list.splits)

text \<open>
  Claim C4, as the code has it. \<^verbatim>\<open>handleNameFields\<close>, given a credential whose
  configured name path resolves to \<^verbatim>\<open>"Ravi Kumar Singh"\<close>, returns
  \<^verbatim>\<open>"Ravi"\<close> for \<^verbatim>\<open>firstName\<close>, \<^verbatim>\<open>"Kumar"\<close> for
  \<^verbatim>\<open>middleName\<close>, \<^verbatim>\<open>"Singh"\<close> for \<^verbatim>\<open>lastName\<close> and \<^verbatim>\<open>"Kumar"\<close>
  for \<^verbatim>\<open>fatherName\<close>: the full name is split at single spaces, the middle name is set
  only for exactly three pieces, and the father's name is the middle name. But
  \<^verbatim>\<open>getFieldValueFromVC\<close>, and so \<^verbatim>\<open>buildProfile\<close>, does not call it (the
  call is commented out): a name field is read at the path configured for that field
  itself, like any field without a transform.
\<close>

theorem handleNameFields_not_called:
  "(getValue v (vcPaths ''name'') = JStr ''Ravi Kumar Singh'' \<longrightarrow>
      handleNameFields v vcPaths ''firstName'' = Inr (JStr ''Ravi'') \<and>
      handleNameFields v vcPaths ''middleName'' = Inr (JStr ''Kumar'') \<and>
      handleNameFields v vcPaths ''lastName'' = Inr (JStr ''Singh'') \<and>
      handleNameFields v vcPaths ''fatherName'' = Inr (JStr ''Kumar'')) \<and>
   (\<forall>s. getValue v (vcPaths ''name'') = JStr s \<and> s \<noteq> [] \<longrightarrow>
      handleNameFields v vcPaths ''middleName''
        = Inr (if length (splitOn (CHR '' '') s) = 3 then JStr (splitOn (CHR '' '') s ! 1)
               else JNull)) \<and>
   handleNameFields v vcPaths ''fatherName'' = handleNameFields v vcPaths ''middleName'' \<and>
   (\<forall>field. field \<in> set [''firstName'', ''middleName'', ''lastName'', ''fatherName''] \<and>
       vcPathsFile (docType v) = Parsed vcPaths \<longrightarrow>
       getFieldValueFromVC h vcPathsFile v field = Inr (getValue v (vcPaths field)))"
proof (intro conjI allI impI)
  assume "getValue v (vcPaths ''name'') = JStr ''Ravi Kumar Singh''"
  then show "handleNameFields v vcPaths ''firstName'' = Inr (JStr ''Ravi'')"
    "handleNameFields v vcPaths ''middleName'' = Inr (JStr ''Kumar'')"
    "handleNameFields v vcPaths ''lastName'' = Inr (JStr ''Singh'')"
    "handleNameFields v vcPaths ''fatherName'' = Inr (JStr ''Kumar'')"
    by (simp_all add: handleNameFields_def)
next
  fix s
  assume "getValue v (vcPaths ''name'') = JStr s \<and> s \<noteq> []"
  then show "handleNameFields v vcPaths ''middleName''
        = Inr (if length (splitOn (CHR '' '') s) = 3 then JStr (splitOn (CHR '' '') s ! 1)
               else JNull)"
    by (simp add: handleNameFields_def Let_def)
next
  show "handleNameFields v vcPaths ''fatherName'' = handleNameFields v vcPaths ''middleName''"
    by (simp add: handleNameFields_def Let_def split: jsval.splits)
next
  fix field
  assume "field \<in> set [''firstName'', ''middleName'', ''lastName'', ''fatherName''] \<and>
       vcPathsFile (docType v) = Parsed vcPaths"
  then show "getFieldValueFromVC h vcPathsFile v field = Inr (getValue v (vcPaths field))"
    by (auto simp: getFieldValueFromVC_def)
qed

text \<open>The claim as stated fails: building a profile from an \<^verbatim>\<open>aadhaar\<close>
  credential whose name path resolves to \<^verbatim>\<open>"Ravi Kumar Singh"\<close> leaves the four
  name fields \<^verbatim>\<open>null\<close> when the path file has no entries for them.\<close>

theorem handleNameFields_not_called_counterexample:
  "getValue \<lparr>docType = ''aadhaar'', vcType = None, docFormat = None,
             content = JObj [(''name'', JStr ''Ravi Kumar Singh'')]\<rparr>
     ([''name'' \<mapsto> ''name''] ''name'') = JStr ''Ravi Kumar Singh'' \<and>
   (\<exists>r. buildProfile \<lparr>nativeDate = (\<lambda>v. None), parseCoerces = False\<rparr>
          [(''firstName'', [''aadhaar'']), (''middleName'', [''aadhaar'']),
           (''lastName'', [''aadhaar'']), (''fatherName'', [''aadhaar''])]
          (\<lambda>d. Parsed [''name'' \<mapsto> ''name''])
          [\<lparr>docType = ''aadhaar'', vcType = None, docFormat = None,
            content = JObj [(''name'', JStr ''Ravi Kumar Singh'')]\<rparr>] = Inr r \<and>
        userProfile r ''firstName'' = Some JNull \<and>
        userProfile r ''middleName'' = Some JNull \<and>
        userProfile r ''lastName'' = Some JNull \<and>
        userProfile r ''fatherName'' = Some JNull \<and>
        userProfile r ''firstName'' \<noteq> Some (JStr ''Ravi''))"
  by (simp add: eval_builder)


theorem handleNameFields_not_called_witness:
  "getValue \<lparr>docType = ''aadhaar'', vcType = None, docFormat = None,
             content = JObj [(''name'', JStr ''Ravi Kumar Singh'')]\<rparr>
     ([''name'' \<mapsto> ''name''] ''name'') = JStr ''Ravi Kumar Singh'' \<and>
   handleNameFields \<lparr>docType = ''aadhaar'', vcType = None, docFormat = None,
             content = JObj [(''name'', JStr ''Ravi Kumar Singh'')]\<rparr>
     [''name'' \<mapsto> ''name''] ''firstName'' = Inr (JStr ''Ravi'') \<and>
   handleNameFields \<lparr>docType = ''aadhaar'', vcType = None, docFormat = None,
             content = JObj [(''name'', JStr ''Ravi Kumar Singh'')]\<rparr>
     [''name'' \<mapsto> ''name''] ''middleName'' = Inr (JStr ''Kumar'') \<and>
   handleNameFields \<lparr>docType = ''aadhaar'', vcType = None, docFormat = None,
             content = JObj [(''name'', JStr ''Ravi Kumar Singh'')]\<rparr>
     [''name'' \<mapsto> ''name''] ''lastName'' = Inr (JStr ''Singh'') \<and>
   handleNameFields \<lparr>docType = ''aadhaar'', vcType = None, docFormat = None,
             content = JObj [(''name'', JStr ''Ravi Kumar Singh'')]\<rparr>
     [''name'' \<mapsto> ''name''] ''fatherName'' = Inr (JStr ''Kumar'') \<and>
   getFieldValueFromVC \<lparr>nativeDate = (\<lambda>v. None), parseCoerces = False\<rparr>
     (\<lambda>d. Parsed [''name'' \<mapsto> ''name''])
     \<lparr>docType = ''aadhaar'', vcType = None, docFormat = None,
      content = JObj [(''name'', JStr ''Ravi Kumar Singh'')]\<rparr> ''firstName'' = Inr JNull"
proof -
  let ?v = "\<lparr>docType = ''aadhaar'', vcType = None, docFormat = None,
             content = JObj [(''name'', JStr ''Ravi Kumar Singh'')]\<rparr>"
  let ?paths = "[''name'' \<mapsto> ''name'']"
  let ?h = "\<lparr>nativeDate = (\<lambda>v. None), parseCoerces = False\<rparr>"
  note T = handleNameFields_not_called [of ?v ?paths "\<lambda>d. Parsed ?paths" ?h]
  have name: "getValue ?v (?paths ''name'') = JStr ''Ravi Kumar Singh''"
    by (simp add: getValue_def)
  from T name have split:
    "handleNameFields ?v ?paths ''firstName'' = Inr (JStr ''Ravi'') \<and>
     handleNameFields ?v ?paths ''middleName'' = Inr (JStr ''Kumar'') \<and>
     handleNameFields ?v ?paths ''lastName'' = Inr (JStr ''Singh'') \<and>
     handleNameFields ?v ?paths ''fatherName'' = Inr (JStr ''Kumar'')"
    by blast
  have "''firstName'' \<in> set [''firstName'', ''middleName'', ''lastName'', ''fatherName''] \<and>
        (\<lambda>d. Parsed ?paths) (docType ?v) = Parsed ?paths"
    by simp
  with T have "getFieldValueFromVC ?h (\<lambda>d. Parsed ?paths) ?v ''firstName''
                 = Inr (getValue ?v (?paths ''firstName''))"
    by blast
  then have direct: "getFieldValueFromVC ?h (\<lambda>d. Parsed ?paths) ?v ''firstName'' = Inr JNull"
    by (simp add: getValue_def)
  from name split direct show ?thesis by blast
qed

section \<open>The validator\<close>

lemmas eval_validator =
  matchUserData_def matchAttributeValue_def matchInVC_def getAttributeValue_def
  profileValue_def nameAttributes_def looseEq_def isObject_def isNullish_def toPrimitive_def
  toNumberPrim_def pickNamePart_def parseToStandardFormat_def variantHasVC_def
  usesFullName_def attributePath_def toLowerCase_def lowerChar_def

lemma matchVariants_first:
  "list_all (\<lambda>e. variantHasVC fileName vcs e = None) pre \<Longrightarrow>
   variantHasVC fileName vcs obj = Some v \<Longrightarrow>
   matchVariants cfg fileName a vcs prof (pre @ obj # rest) = matchInVC cfg obj v a prof"
  by (induction pre) (auto simp: variantHasVC_def)

text \<open>
  Claim C9. Within one candidate document type the validator stops at the first entry of
  the type's configuration file for which the supplied set holds a credential with that
  \<^verbatim>\<open>vcType\<close>, \<^verbatim>\<open>docFormat\<close> and \<^verbatim>\<open>docType\<close>:
  \<^verbatim>\<open>matchAttributeValue\<close> returns the outcome of the comparison against that
  credential (a match, a mismatch, or the error it throws), whatever entries follow, which
  are never consulted; in particular a mismatch there is the result.
\<close>

theorem matchAttributeValue_first_variant:
  assumes "docToFieldMaps cfg fileName = Some (pre @ obj # rest)"
    and "list_all (\<lambda>e. variantHasVC fileName vcs e = None) pre"
    and "variantHasVC fileName vcs obj = Some v"
  shows "matchAttributeValue cfg fileName profileAttribute vcs userProfileInfo
           = matchInVC cfg obj v profileAttribute userProfileInfo \<and>
         (\<forall>rest'. matchVariants cfg fileName profileAttribute vcs userProfileInfo (pre @ obj # rest')
            = matchInVC cfg obj v profileAttribute userProfileInfo) \<and>
         (matchInVC cfg obj v profileAttribute userProfileInfo = Inr False \<longrightarrow>
            matchAttributeValue cfg fileName profileAttribute vcs userProfileInfo = Inr False)"
  using assms by (simp add: matchAttributeValue_def matchVariants_first)

text \<open>The theorem at a file of three entries: no \<^verbatim>\<open>digilocker\<close> credential is
  supplied, the \<^verbatim>\<open>w3c\<close> credential mismatches, and the credential of the third
  entry, which would match, is not consulted.\<close>

theorem matchAttributeValue_first_variant_witness:
  "let cfg = \<lparr>config = [''firstName'' \<mapsto> [''aadhaar'']],
              docToFieldMaps =
                [''aadhaar'' \<mapsto>
                   [\<lparr>variantVcType = ''digilocker'', variantFormat = ''json'',
                     variantFields = [''name'' \<mapsto> ''name'']\<rparr>,
                    \<lparr>variantVcType = ''w3c'', variantFormat = ''json'',
                     variantFields = [''firstName'' \<mapsto> ''credentialSubject.firstName'']\<rparr>,
                    \<lparr>variantVcType = ''manual'', variantFormat = ''json'',
                     variantFields = [''firstName'' \<mapsto> ''firstName'']\<rparr>]],
              fieldValues = Map.empty, nameFieldsPosition = Map.empty\<rparr>;
       vcs = [\<lparr>docType = ''aadhaar'', vcType = Some ''manual'', docFormat = Some ''json'',
               content = JObj [(''firstName'', JStr ''Asha'')]\<rparr>,
              \<lparr>docType = ''aadhaar'', vcType = Some ''w3c'', docFormat = Some ''json'',
               content = JObj [(''credentialSubject'', JObj [(''firstName'', JStr ''Ravi'')])]\<rparr>]
   in variantHasVC ''aadhaar'' vcs
        \<lparr>variantVcType = ''manual'', variantFormat = ''json'',
         variantFields = [''firstName'' \<mapsto> ''firstName'']\<rparr> = Some (hd vcs) \<and>
      matchInVC cfg
        \<lparr>variantVcType = ''manual'', variantFormat = ''json'',
         variantFields = [''firstName'' \<mapsto> ''firstName'']\<rparr> (hd vcs) ''firstName''
        [(''firstName'', JStr ''Asha'')] = Inr True \<and>
      matchAttributeValue cfg ''aadhaar'' ''firstName'' vcs [(''firstName'', JStr ''Asha'')]
        = Inr False"
proof -
  let ?dl = "\<lparr>variantVcType = ''digilocker'', variantFormat = ''json'',
              variantFields = [''name'' \<mapsto> ''name'']\<rparr>"
  let ?w3c = "\<lparr>variantVcType = ''w3c'', variantFormat = ''json'',
               variantFields = [''firstName'' \<mapsto> ''credentialSubject.firstName'']\<rparr>"
  let ?man = "\<lparr>variantVcType = ''manual'', variantFormat = ''json'',
               variantFields = [''firstName'' \<mapsto> ''firstName'']\<rparr>"
  let ?cfg = "\<lparr>config = [''firstName'' \<mapsto> [''aadhaar'']],
               docToFieldMaps = [''aadhaar'' \<mapsto> [?dl, ?w3c, ?man]],
               fieldValues = Map.empty, nameFieldsPosition = Map.empty\<rparr>"
  let ?v1 = "\<lparr>docType = ''aadhaar'', vcType = Some ''manual'', docFormat = Some ''json'',
              content = JObj [(''firstName'', JStr ''Asha'')]\<rparr>"
  let ?v2 = "\<lparr>docType = ''aadhaar'', vcType = Some ''w3c'', docFormat = Some ''json'',
              content = JObj [(''credentialSubject'', JObj [(''firstName'', JStr ''Ravi'')])]\<rparr>"
  let ?prof = "[(''firstName'', JStr ''Asha'')]"
  have fc: "docToFieldMaps ?cfg ''aadhaar'' = Some ([?dl] @ ?w3c # [?man])"
    by simp
  have pre: "list_all (\<lambda>e. variantHasVC ''aadhaar'' [?v1, ?v2] e = None) [?dl]"
    by (simp add: variantHasVC_def)
  have fnd: "variantHasVC ''aadhaar'' [?v1, ?v2] ?w3c = Some ?v2"
    by (simp add: variantHasVC_def)
  have later: "variantHasVC ''aadhaar'' [?v1, ?v2] ?man = Some ?v1"
    by (simp add: variantHasVC_def)
  have would: "matchInVC ?cfg ?man ?v1 ''firstName'' ?prof = Inr True"
    by (simp add: eval_validator)
  have mismatch: "matchInVC ?cfg ?w3c ?v2 ''firstName'' ?prof = Inr False"
    by (simp add: eval_validator)
  from matchAttributeValue_first_variant [OF fc pre fnd, of "''firstName''" ?prof] mismatch
  have "matchAttributeValue ?cfg ''aadhaar'' ''firstName'' [?v1, ?v2] ?prof = Inr False"
    by simp
  with later would show ?thesis
    unfolding Let_def by simp
qed

lemma matchFiles_acc:
  "list_all (\<lambda>f. returns (matchAttributeValue cfg f a vcs prof)) files \<Longrightarrow>
   matchFiles cfg a vcs prof files (ver, ds)
     = Inr (ver \<or> list_ex (\<lambda>f. matchAttributeValue cfg f a vcs prof = Inr True) files,
            ds @ filter (\<lambda>f. matchAttributeValue cfg f a vcs prof = Inr True) files)"
proof (induction files arbitrary: ver ds)
  case Nil
  then show ?case by simp
next
  case (Cons f files)
  then show ?case by (auto simp: returns_def split: sum.splits)
qed

lemma matchAttributes_all:
  "list_all (evaluates cfg vcs prof) keys \<Longrightarrow>
   matchAttributes cfg vcs prof keys response
     = Inr (response @ map (\<lambda>a. \<lparr>attribute = a, verified = (matchingDocs cfg vcs prof a \<noteq> []),
                                  docsUsed = matchingDocs cfg vcs prof a\<rparr>) keys)"
proof (induction keys arbitrary: response)
  case Nil
  then show ?case by simp
next
  case (Cons a keys)
  from Cons.prems have here: "evaluates cfg vcs prof a"
    and rest: "list_all (evaluates cfg vcs prof) keys"
    by simp_all
  from here obtain files where files: "config cfg a = Some files"
    and ok: "list_all (\<lambda>f. returns (matchAttributeValue cfg f a vcs prof)) files"
    by (auto simp: evaluates_def candidateFiles_def)
  have ex: "list_ex P files = (filter P files \<noteq> [])" for P :: "string \<Rightarrow> bool"
    by (simp add: list_ex_iff filter_empty_conv)
  show ?case
    using files matchFiles_acc [OF ok, of False "[]"] Cons.IH [OF rest]
    by (simp add: matchingDocs_def candidateFiles_def ex)
qed


text \<open>
  Claim C2, as the code has it. Provided no evaluation throws (every key of the profile has
  an entry in \<^verbatim>\<open>config.json\<close>, the file of every candidate document type can be
  read, and every comparison returns), \<^verbatim>\<open>matchUserData\<close> evaluates, for every key
  of the profile, every document type configured for it, with no stop at a match: the
  result lists the keys in order, each with \<^verbatim>\<open>docsUsed\<close> equal to the configured
  document types that match, in the configured order, and \<^verbatim>\<open>verified\<close> true
  exactly when at least one matches. With two candidates of which the first returns a
  mismatch and the second a match the result is
  \<^verbatim>\<open>{verified: true, docsUsed: [second]}\<close>; when every candidate returns a mismatch
  it is \<^verbatim>\<open>{verified: false, docsUsed: []}\<close>.
\<close>

theorem matchUserData_scans_all:
  "(list_all (evaluates cfg vcs userProfileInfo) (map fst userProfileInfo) \<longrightarrow>
      matchUserData cfg userProfileInfo vcs
        = Inr (map (\<lambda>a. \<lparr>attribute = a,
                          verified = (matchingDocs cfg vcs userProfileInfo a \<noteq> []),
                          docsUsed = matchingDocs cfg vcs userProfileInfo a\<rparr>)
                 (map fst userProfileInfo))) \<and>
   (\<forall>a. (matchingDocs cfg vcs userProfileInfo a \<noteq> [])
        = list_ex (\<lambda>f. matchAttributeValue cfg f a vcs userProfileInfo = Inr True)
            (candidateFiles cfg a)) \<and>
   (\<forall>a x f1 f2.
      config cfg a = Some [f1, f2] \<and>
      matchAttributeValue cfg f1 a vcs [(a, x)] = Inr False \<and>
      matchAttributeValue cfg f2 a vcs [(a, x)] = Inr True \<longrightarrow>
      matchUserData cfg [(a, x)] vcs = Inr [\<lparr>attribute = a, verified = True, docsUsed = [f2]\<rparr>]) \<and>
   (\<forall>a x files.
      config cfg a = Some files \<and>
      list_all (\<lambda>f. matchAttributeValue cfg f a vcs [(a, x)] = Inr False) files \<longrightarrow>
      matchUserData cfg [(a, x)] vcs = Inr [\<lparr>attribute = a, verified = False, docsUsed = []\<rparr>])"
proof (intro conjI allI impI)
  assume "list_all (evaluates cfg vcs userProfileInfo) (map fst userProfileInfo)"
  from matchAttributes_all [OF this, of "[]"]
  show "matchUserData cfg userProfileInfo vcs
        = Inr (map (\<lambda>a. \<lparr>attribute = a,
                          verified = (matchingDocs cfg vcs userProfileInfo a \<noteq> []),
                          docsUsed = matchingDocs cfg vcs userProfileInfo a\<rparr>)
                 (map fst userProfileInfo))"
    by (simp add: matchUserData_def)
next
  fix a
  show "(matchingDocs cfg vcs userProfileInfo a \<noteq> [])
        = list_ex (\<lambda>f. matchAttributeValue cfg f a vcs userProfileInfo = Inr True)
            (candidateFiles cfg a)"
    by (simp add: matchingDocs_def list_ex_iff filter_empty_conv)
next
  fix a x f1 f2
  assume "config cfg a = Some [f1, f2] \<and>
      matchAttributeValue cfg f1 a vcs [(a, x)] = Inr False \<and>
      matchAttributeValue cfg f2 a vcs [(a, x)] = Inr True"
  then show "matchUserData cfg [(a, x)] vcs
               = Inr [\<lparr>attribute = a, verified = True, docsUsed = [f2]\<rparr>]"
    by (simp add: matchUserData_def)
next
  fix a x files
  assume h: "config cfg a = Some files \<and>
      list_all (\<lambda>f. matchAttributeValue cfg f a vcs [(a, x)] = Inr False) files"
  then have ok: "list_all (\<lambda>f. returns (matchAttributeValue cfg f a vcs [(a, x)])) files"
    unfolding list_all_iff by (simp add: returns_def)
  from h have none: "filter (\<lambda>f. matchAttributeValue cfg f a vcs [(a, x)] = Inr True) files = []"
    by (simp add: list_all_iff filter_empty_conv)
  from h have none': "\<not> list_ex (\<lambda>f. matchAttributeValue cfg f a vcs [(a, x)] = Inr True) files"
    by (simp add: list_all_iff list_ex_iff)
  from h matchFiles_acc [OF ok, of False "[]"] none none'
  show "matchUserData cfg [(a, x)] vcs
          = Inr [\<lparr>attribute = a, verified = False, docsUsed = []\<rparr>]"
    by (simp add: matchUserData_def)
qed

text \<open>The claim as stated, without that proviso, fails. For the categorical attribute
  \<^verbatim>\<open>caste\<close> with two candidates, where the credential of the first lacks the
  caste and the credential of the second holds the stored one, the first comparison
  throws and \<^verbatim>\<open>matchUserData\<close> throws with it, where the claim has
  \<^verbatim>\<open>{verified: true, docsUsed: [second]}\<close>. The same happens when the file of
  the first candidate cannot be read.\<close>

theorem matchUserData_scans_all_counterexample:
  "let cfg = \<lparr>config = [''caste'' \<mapsto> [''casteCertificate'', ''aadhaar'']],
              docToFieldMaps =
                (\<lambda>f. Some [\<lparr>variantVcType = ''w3c'', variantFormat = ''json'',
                             variantFields = [''caste'' \<mapsto> ''credentialSubject.caste'']\<rparr>]),
              fieldValues = [''caste'' \<mapsto> [''obc'' \<mapsto> [''obc'', ''other backward class'']]],
              nameFieldsPosition = Map.empty\<rparr>;
       vcs = [\<lparr>docType = ''casteCertificate'', vcType = Some ''w3c'', docFormat = Some ''json'',
               content = JObj [(''credentialSubject'', JObj [(''holder'', JStr ''Asha'')])]\<rparr>,
              \<lparr>docType = ''aadhaar'', vcType = Some ''w3c'', docFormat = Some ''json'',
               content = JObj [(''credentialSubject'', JObj [(''caste'', JStr ''OBC'')])]\<rparr>];
       prof = [(''caste'', JStr ''OBC'')]
   in matchAttributeValue cfg ''casteCertificate'' ''caste'' vcs prof = Inl TypeError \<and>
      matchAttributeValue cfg ''aadhaar'' ''caste'' vcs prof = Inr True \<and>
      matchUserData cfg prof vcs = Inl TypeError \<and>
      matchUserData cfg prof vcs
        \<noteq> Inr [\<lparr>attribute = ''caste'', verified = True, docsUsed = [''aadhaar'']\<rparr>] \<and>
      matchUserData (cfg\<lparr>docToFieldMaps := (docToFieldMaps cfg)(''casteCertificate'' := None)\<rparr>)
        prof vcs = Inl FileError"
  by (simp add: eval_validator Let_def)


text \<open>The theorem at two candidates, \<^verbatim>\<open>aadhaar\<close> and \<^verbatim>\<open>pan\<close>, whose
  credentials hold the first names Ravi and Asha.\<close>

theorem matchUserData_scans_all_witness:
  "let cfg = \<lparr>config = [''firstName'' \<mapsto> [''aadhaar'', ''pan'']],
              docToFieldMaps =
                (\<lambda>f. Some [\<lparr>variantVcType = ''w3c'', variantFormat = ''json'',
                             variantFields = [''firstName'' \<mapsto> ''credentialSubject.firstName'']\<rparr>]),
              fieldValues = Map.empty, nameFieldsPosition = Map.empty\<rparr>;
       vcs = [\<lparr>docType = ''aadhaar'', vcType = Some ''w3c'', docFormat = Some ''json'',
               content = JObj [(''credentialSubject'', JObj [(''firstName'', JStr ''Ravi'')])]\<rparr>,
              \<lparr>docType = ''pan'', vcType = Some ''w3c'', docFormat = Some ''json'',
               content = JObj [(''credentialSubject'', JObj [(''firstName'', JStr ''Asha'')])]\<rparr>]
   in list_all (evaluates cfg vcs [(''firstName'', JStr ''Asha'')]) [''firstName''] \<and>
      matchAttributeValue cfg ''aadhaar'' ''firstName'' vcs [(''firstName'', JStr ''Asha'')] = Inr False \<and>
      matchAttributeValue cfg ''pan'' ''firstName'' vcs [(''firstName'', JStr ''Asha'')] = Inr True \<and>
      matchUserData cfg [(''firstName'', JStr ''Asha'')] vcs
        = Inr [\<lparr>attribute = ''firstName'', verified = True, docsUsed = [''pan'']\<rparr>] \<and>
      matchUserData cfg [(''firstName'', JStr ''Meera'')] vcs
        = Inr [\<lparr>attribute = ''firstName'', verified = False, docsUsed = []\<rparr>]"
proof -
  let ?cfg = "\<lparr>config = [''firstName'' \<mapsto> [''aadhaar'', ''pan'']],
              docToFieldMaps =
                (\<lambda>f. Some [\<lparr>variantVcType = ''w3c'', variantFormat = ''json'',
                             variantFields = [''firstName'' \<mapsto> ''credentialSubject.firstName'']\<rparr>]),
              fieldValues = Map.empty, nameFieldsPosition = Map.empty\<rparr>"
  let ?vcs = "[\<lparr>docType = ''aadhaar'', vcType = Some ''w3c'', docFormat = Some ''json'',
               content = JObj [(''credentialSubject'', JObj [(''firstName'', JStr ''Ravi'')])]\<rparr>,
              \<lparr>docType = ''pan'', vcType = Some ''w3c'', docFormat = Some ''json'',
               content = JObj [(''credentialSubject'', JObj [(''firstName'', JStr ''Asha'')])]\<rparr>]"
  have c: "config ?cfg ''firstName'' = Some [''aadhaar'', ''pan'']"
    by simp
  have a1: "matchAttributeValue ?cfg ''aadhaar'' ''firstName'' ?vcs [(''firstName'', JStr ''Asha'')] = Inr False"
    by (simp add: eval_validator)
  have a2: "matchAttributeValue ?cfg ''pan'' ''firstName'' ?vcs [(''firstName'', JStr ''Asha'')] = Inr True"
    by (simp add: eval_validator)
  have m1: "matchAttributeValue ?cfg ''aadhaar'' ''firstName'' ?vcs [(''firstName'', JStr ''Meera'')] = Inr False"
    by (simp add: eval_validator)
  have m2: "matchAttributeValue ?cfg ''pan'' ''firstName'' ?vcs [(''firstName'', JStr ''Meera'')] = Inr False"
    by (simp add: eval_validator)
  note T = matchUserData_scans_all [of ?cfg ?vcs "[(''firstName'', JStr ''Asha'')]"]
  from T c a1 a2
  have r1: "matchUserData ?cfg [(''firstName'', JStr ''Asha'')] ?vcs
        = Inr [\<lparr>attribute = ''firstName'', verified = True, docsUsed = [''pan'']\<rparr>]"
    by blast
  have "list_all (\<lambda>f. matchAttributeValue ?cfg f ''firstName'' ?vcs [(''firstName'', JStr ''Meera'')]
                     = Inr False) [''aadhaar'', ''pan'']"
    using m1 m2 by simp
  with T c
  have r2: "matchUserData ?cfg [(''firstName'', JStr ''Meera'')] ?vcs
        = Inr [\<lparr>attribute = ''firstName'', verified = False, docsUsed = []\<rparr>]"
    by blast
  have ev: "list_all (evaluates ?cfg ?vcs [(''firstName'', JStr ''Asha'')]) [''firstName'']"
    by (simp add: evaluates_def candidateFiles_def returns_def a1 a2)
  then have ev': "list_all (evaluates ?cfg ?vcs [(''firstName'', JStr ''Asha'')])
                    (map fst [(''firstName'', JStr ''Asha'')])"
    by simp
  from T [THEN conjunct1] ev'
  have "matchUserData ?cfg [(''firstName'', JStr ''Asha'')] ?vcs
        = Inr (map (\<lambda>a. \<lparr>attribute = a,
                          verified = (matchingDocs ?cfg ?vcs [(''firstName'', JStr ''Asha'')] a \<noteq> []),
                          docsUsed = matchingDocs ?cfg ?vcs [(''firstName'', JStr ''Asha'')] a\<rparr>)
                 (map fst [(''firstName'', JStr ''Asha'')]))"
    by (rule mp)
  from ev a1 a2 r1 r2 show ?thesis
    unfolding Let_def by blast
qed

lemma getAttributeValue_total: "\<exists>x. getAttributeValue v (Some p) = Inr x"
  by (simp add: getAttributeValue_def)

lemma matchInVC_missing:
  assumes "getAttributeValue v (attributePath obj v a) = Inr x" and "isNullish x"
  shows "matchInVC cfg obj v a prof
           = (if fieldValues cfg a \<noteq> None \<or> usesFullName v a \<or> a = ''dob'' then Inl TypeError
              else Inr (isNullish (profileValue prof a)))"
proof -
  from assms(2) have x: "x = JUndefined \<or> x = JNull"
    by (simp add: isNullish_def)
  have g: "getAttributeValue v
             (if a \<in> set nameAttributes \<and> vcType v = Some ''digilocker''
              then variantFields obj ''name'' else variantFields obj a) = Inr x"
    using assms(1) by (simp add: attributePath_def usesFullName_def)
  have pick: "pickNamePart cfg v a x = Inl TypeError"
    using x by (auto simp: pickNamePart_def)
  have std: "parseToStandardFormat x = Inl TypeError"
    using x by (auto simp: parseToStandardFormat_def)
  have eq: "looseEq x y = isNullish y" for y
    using x by (auto simp: looseEq_def isObject_def isNullish_def)
  show ?thesis
  proof (cases "fieldValues cfg a")
    case (Some tbl)
    have "(case profileValue prof a of
             JStr p \<Rightarrow>
               (case tbl (toLowerCase p) of
                  None \<Rightarrow> Inl TypeError
                | Some synonyms \<Rightarrow>
                    (case x of JStr a \<Rightarrow> Inr (toLowerCase a \<in> set synonyms) | _ \<Rightarrow> Inl TypeError))
           | _ \<Rightarrow> Inl TypeError) = (Inl TypeError :: error + bool)"
      using x by (cases "profileValue prof a") (auto split: option.splits)
    with Some show ?thesis
      unfolding matchInVC_def Let_def g by simp
  next
    case None
    show ?thesis
      unfolding matchInVC_def Let_def g
      by (simp add: None pick std eq usesFullName_def nameAttributes_def) blast
  qed
qed

text \<open>What the code does when the path resolves to \<^verbatim>\<open>undefined\<close> or
  \<^verbatim>\<open>null\<close> in the credential found: the branches for a categorical attribute, for
  a name attribute of a \<^verbatim>\<open>digilocker\<close> credential and for \<^verbatim>\<open>dob\<close> call a
  string method on that value and throw; the default branch compares it loosely with the
  stored value.\<close>

lemma matchAttributeValue_missing_cases:
  "(\<forall>v p. \<exists>x. getAttributeValue v (Some p) = Inr x) \<and>
   (docToFieldMaps cfg fileName = Some (pre @ obj # rest) \<and>
    list_all (\<lambda>e. variantHasVC fileName vcs e = None) pre \<and>
    variantHasVC fileName vcs obj = Some v \<and>
    getAttributeValue v (attributePath obj v a) = Inr x \<and> isNullish x \<longrightarrow>
    matchAttributeValue cfg fileName a vcs prof
      = (if fieldValues cfg a \<noteq> None \<or> usesFullName v a \<or> a = ''dob'' then Inl TypeError
         else Inr (isNullish (profileValue prof a))))"
proof (intro conjI allI impI)
  fix v :: vc and p
  show "\<exists>x. getAttributeValue v (Some p) = Inr x"
    by (rule getAttributeValue_total)
next
  assume h: "docToFieldMaps cfg fileName = Some (pre @ obj # rest) \<and>
    list_all (\<lambda>e. variantHasVC fileName vcs e = None) pre \<and>
    variantHasVC fileName vcs obj = Some v \<and>
    getAttributeValue v (attributePath obj v a) = Inr x \<and> isNullish x"
  then have "matchAttributeValue cfg fileName a vcs prof = matchInVC cfg obj v a prof"
    by (simp add: matchAttributeValue_def matchVariants_first)
  also from h have "\<dots> = (if fieldValues cfg a \<noteq> None \<or> usesFullName v a \<or> a = ''dob''
                          then Inl TypeError else Inr (isNullish (profileValue prof a)))"
    by (intro matchInVC_missing) blast+
  finally show "matchAttributeValue cfg fileName a vcs prof
      = (if fieldValues cfg a \<noteq> None \<or> usesFullName v a \<or> a = ''dob'' then Inl TypeError
         else Inr (isNullish (profileValue prof a)))" .
qed


text \<open>
  Claim C8, at the inputs where the code departs from it. The claim has a missing value
  treated as not found: a non-match, and no exception. \<^verbatim>\<open>getAttributeValue\<close> does
  give \<^verbatim>\<open>undefined\<close> for the caste that a caste certificate lacks, but
  \<^verbatim>\<open>caste\<close> has a categorical table, \<^verbatim>\<open>attributeValue.toLowerCase()\<close> is
  called on that \<^verbatim>\<open>undefined\<close>, and the \<^verbatim>\<open>TypeError\<close> leaves
  \<^verbatim>\<open>matchAttributeValue\<close> and \<^verbatim>\<open>matchUserData\<close>, which catch nothing. A
  stored caste without an entry in the categorical table throws as well, since
  \<^verbatim>\<open>includes\<close> is called on the missing entry.
\<close>

theorem matchAttributeValue_missing_value_throws:
  "let cfg = \<lparr>config = [''caste'' \<mapsto> [''casteCertificate'']],
              docToFieldMaps =
                [''casteCertificate'' \<mapsto>
                   [\<lparr>variantVcType = ''w3c'', variantFormat = ''json'',
                     variantFields = [''caste'' \<mapsto> ''credentialSubject.caste'']\<rparr>]],
              fieldValues = [''caste'' \<mapsto> [''obc'' \<mapsto> [''obc'', ''other backward class'']]],
              nameFieldsPosition = Map.empty\<rparr>;
       vc = \<lparr>docType = ''casteCertificate'', vcType = Some ''w3c'', docFormat = Some ''json'',
             content = JObj [(''credentialSubject'', JObj [(''holder'', JStr ''Asha'')])]\<rparr>
   in getAttributeValue vc (Some ''credentialSubject.caste'') = Inr JUndefined \<and>
      matchAttributeValue cfg ''casteCertificate'' ''caste'' [vc] [(''caste'', JStr ''OBC'')]
        = Inl TypeError \<and>
      matchUserData cfg [(''caste'', JStr ''OBC'')] [vc] = Inl TypeError \<and>
      matchAttributeValue cfg ''casteCertificate'' ''caste''
        [vc\<lparr>content := JObj [(''credentialSubject'', JObj [(''caste'', JStr ''OBC'')])]\<rparr>]
        [(''caste'', JStr ''General'')] = Inl TypeError"
  by (simp add: eval_validator Let_def)


end
